theory Spec2Isabelle
  imports Complex_Main "HOL-Library.Log_Nat"
begin

section \<open>JavaScript numbers\<close>

text \<open>
  The model methods \<^verbatim>\<open>getCompletionPercentage\<close> and \<^verbatim>\<open>getAverageRating\<close> compute with
  JavaScript Numbers, which are IEEE 754 binary64 values: every \<^verbatim>\<open>/\<close>, \<^verbatim>\<open>*\<close> and \<^verbatim>\<open>+\<close>
  returns the exact result rounded to the nearest value with a 53-bit significand, ties to the
  even significand. A Number is modelled by the rational it denotes, and \<open>to_double\<close> is that
  rounding. Only the normal range is modelled (no overflow, no subnormals, no NaN): the
  values met here are task counts, ratings between 1 and 5 and their quotients.

  \<open>floor_log2 x\<close> is the binary exponent of a positive rational: the numerator and the
  denominator have \<open>bitlen\<close> binary digits, so the exponent is their difference or one less.
\<close>

definition floor_log2 :: "rat \<Rightarrow> int" where
  "floor_log2 x = (case quotient_of x of (p, q) \<Rightarrow>
     let d = bitlen p - bitlen q
     in if 2 powi d \<le> x then d else d - 1)"

definition round_half_even :: "rat \<Rightarrow> int" where
  "round_half_even y = (let f = \<lfloor>y\<rfloor>; r = y - of_int f
     in if r < 1 / 2 then f else if 1 / 2 < r then f + 1
        else if even f then f else f + 1)"

definition to_double :: "rat \<Rightarrow> rat" where
  "to_double x = (if x = 0 then 0 else
     let a = \<bar>x\<bar>; u = 2 powi (floor_log2 a - 52)
     in sgn x * of_int (round_half_even (a / u)) * u)"

definition js_div :: "rat \<Rightarrow> rat \<Rightarrow> rat" where
  "js_div x y = to_double (x / y)"

definition js_mul :: "rat \<Rightarrow> rat \<Rightarrow> rat" where
  "js_mul x y = to_double (x * y)"

definition js_add :: "rat \<Rightarrow> rat \<Rightarrow> rat" where
  "js_add x y = to_double (x + y)"

text \<open>
  \<^verbatim>\<open>Math.round\<close> returns the integer closest to its argument, and of two equally close
  integers the one towards plus infinity.
\<close>

definition Math_round :: "rat \<Rightarrow> int" where
  "Math_round x = \<lfloor>x + 1 / 2\<rfloor>"

section \<open>JavaScript values\<close>

text \<open>
  A Number is also one of the three values that are no rational: \<^verbatim>\<open>NaN\<close> and the two
  infinities. \<open>js_less x y\<close> is \<^verbatim>\<open>x < y\<close> on Numbers, which is false when either side is
  \<^verbatim>\<open>NaN\<close>; \<^verbatim>\<open>x > y\<close> is \<open>js_less y x\<close>.
\<close>

datatype jsNumber = NaN | NegInfinity | Finite rat | PosInfinity

fun js_less :: "jsNumber \<Rightarrow> jsNumber \<Rightarrow> bool" where
  "js_less NaN y = False"
| "js_less x NaN = False"
| "js_less PosInfinity y = False"
| "js_less x PosInfinity = True"
| "js_less x NegInfinity = False"
| "js_less NegInfinity y = True"
| "js_less (Finite x) (Finite y) = (x < y)"

fun negate :: "jsNumber \<Rightarrow> jsNumber" where
  "negate NaN = NaN"
| "negate NegInfinity = PosInfinity"
| "negate (Finite x) = Finite (- x)"
| "negate PosInfinity = NegInfinity"

text \<open>
  A value of a request body, as the body parser builds it from JSON or from a form: a field
  that is missing reads as \<^verbatim>\<open>undefined\<close>; an object is a plain object, whose conversion to a
  primitive value is the text \<^verbatim>\<open>[object Object]\<close>. A string is a list of 8-bit characters
  (the texts whose code units are below 256).
\<close>

datatype jsValue =
    Undefined
  | Null
  | Boolean bool
  | Number jsNumber
  | String string
  | Array "jsValue list"
  | Object

text \<open>
  The value of a numeric text is rounded to a double over the whole range: below
  \<open>2\<^sup>-\<^sup>1\<^sup>0\<^sup>2\<^sup>2\<close> the doubles are \<open>2\<^sup>-\<^sup>1\<^sup>0\<^sup>7\<^sup>4\<close> apart, and a value that rounds to \<open>2\<^sup>1\<^sup>0\<^sup>2\<^sup>4\<close> or
  more, which has a binary exponent of 1024 or more, is an infinity.
\<close>

definition roundToDouble :: "rat \<Rightarrow> jsNumber" where
  "roundToDouble x = (if x = 0 then Finite 0 else
     let a = \<bar>x\<bar>;
         u = 2 powi (max (floor_log2 a - 52) (- 1074));
         v = of_int (round_half_even (a / u)) * u
     in if 1024 \<le> floor_log2 v then (if 0 < x then PosInfinity else NegInfinity)
        else Finite (sgn x * v))"

text \<open>
  White space and line terminators, which \<^verbatim>\<open>String.prototype.trim\<close> removes from both ends
  of a string and which may surround a numeric text: tab, line feed, vertical tab, form
  feed, carriage return, space and no-break space are the ones below 256.
\<close>

definition isWhiteSpace :: "char \<Rightarrow> bool" where
  "isWhiteSpace c = (of_char c \<in> {9, 10, 11, 12, 13, 32, 160 :: nat})"

definition trim :: "string \<Rightarrow> string" where
  "trim s = rev (dropWhile isWhiteSpace (rev (dropWhile isWhiteSpace s)))"

text \<open>
  The conversion of a string to a Number (\<^verbatim>\<open>StringToNumber\<close> of ECMAScript). The trimmed
  text is empty (the Number 0), a binary, octal or hexadecimal integer with its prefix, or
  a decimal literal with an optional sign: \<^verbatim>\<open>Infinity\<close>, or digits with an optional fraction
  and an optional exponent, at least one digit before or after the point. Any other text
  is \<^verbatim>\<open>NaN\<close>.
\<close>

definition digitValue :: "char \<Rightarrow> int option" where
  "digitValue c = (let n = of_char c :: int in
     if 48 \<le> n \<and> n \<le> 57 then Some (n - 48)
     else if 97 \<le> n \<and> n \<le> 102 then Some (n - 87)
     else if 65 \<le> n \<and> n \<le> 70 then Some (n - 55)
     else None)"

definition isDigit :: "int \<Rightarrow> char \<Rightarrow> bool" where
  "isDigit base c = (case digitValue c of None \<Rightarrow> False | Some d \<Rightarrow> d < base)"

definition digitsValue :: "int \<Rightarrow> string \<Rightarrow> int" where
  "digitsValue base ds =
     foldl (\<lambda>v c. case digitValue c of None \<Rightarrow> v | Some d \<Rightarrow> v * base + d) 0 ds"

text \<open>The exponent that the text after the digits denotes: 0 when there is none.\<close>

definition ExponentPart :: "string \<Rightarrow> int option" where
  "ExponentPart s =
     (case s of
        [] \<Rightarrow> Some 0
      | c # r \<Rightarrow>
          if c = CHR ''e'' \<or> c = CHR ''E'' then
            let negative = (r \<noteq> [] \<and> hd r = CHR ''-'');
                ds = (if r \<noteq> [] \<and> (hd r = CHR ''-'' \<or> hd r = CHR ''+'') then tl r else r)
            in if ds \<noteq> [] \<and> list_all (isDigit 10) ds
               then Some (if negative then - digitsValue 10 ds else digitsValue 10 ds)
               else None
          else None)"

definition StrUnsignedDecimalLiteral :: "string \<Rightarrow> jsNumber" where
  "StrUnsignedDecimalLiteral s =
     (if s = ''Infinity'' then PosInfinity
      else
        let ip = takeWhile (isDigit 10) s;
            r1 = dropWhile (isDigit 10) s;
            dot = (r1 \<noteq> [] \<and> hd r1 = CHR ''.'');
            fp = (if dot then takeWhile (isDigit 10) (tl r1) else []);
            r2 = (if dot then dropWhile (isDigit 10) (tl r1) else r1)
        in if ip = [] \<and> fp = [] then NaN
           else (case ExponentPart r2 of
                   None \<Rightarrow> NaN
                 | Some e \<Rightarrow>
                     Finite (of_int (digitsValue 10 (ip @ fp)) * 10 powi (e - int (length fp)))))"

definition StrDecimalLiteral :: "string \<Rightarrow> jsNumber" where
  "StrDecimalLiteral s =
     (case s of
        [] \<Rightarrow> NaN
      | c # r \<Rightarrow>
          if c = CHR ''+'' then StrUnsignedDecimalLiteral r
          else if c = CHR ''-'' then negate (StrUnsignedDecimalLiteral r)
          else StrUnsignedDecimalLiteral s)"

definition NonDecimalIntegerLiteral :: "string \<Rightarrow> jsNumber" where
  "NonDecimalIntegerLiteral s =
     (case s of
        z # p # ds \<Rightarrow>
          let base = (if p = CHR ''x'' \<or> p = CHR ''X'' then 16
                      else if p = CHR ''o'' \<or> p = CHR ''O'' then 8
                      else if p = CHR ''b'' \<or> p = CHR ''B'' then 2 else 0)
          in if z = CHR ''0'' \<and> base \<noteq> 0 \<and> ds \<noteq> [] \<and> list_all (isDigit base) ds
             then Finite (of_int (digitsValue base ds)) else NaN
      | _ \<Rightarrow> NaN)"

definition StringToNumber :: "string \<Rightarrow> jsNumber" where
  "StringToNumber s =
     (let t = trim s
      in if t = [] then Finite 0
         else (case (case NonDecimalIntegerLiteral t of NaN \<Rightarrow> StrDecimalLiteral t | n \<Rightarrow> n) of
                 Finite x \<Rightarrow> roundToDouble x
               | n \<Rightarrow> n))"

text \<open>
  \<^verbatim>\<open>!v\<close> is \<open>\<not> ToBoolean v\<close>. In \<^verbatim>\<open>v < 1\<close> and \<^verbatim>\<open>v > 5\<close> the value is converted by \<open>ToNumber\<close>.
  An array is converted through its text, the texts of its elements joined by commas, with
  the empty text for \<^verbatim>\<open>null\<close>: with two elements or more the text has a comma and is no
  number, and the text of a Number denotes that Number again.
\<close>

fun ToBoolean :: "jsValue \<Rightarrow> bool" where
  "ToBoolean Undefined = False"
| "ToBoolean Null = False"
| "ToBoolean (Boolean b) = b"
| "ToBoolean (Number n) = (n \<noteq> NaN \<and> n \<noteq> Finite 0)"
| "ToBoolean (String s) = (s \<noteq> [])"
| "ToBoolean (Array xs) = True"
| "ToBoolean Object = True"

fun ToNumber :: "jsValue \<Rightarrow> jsNumber" where
  "ToNumber Undefined = NaN"
| "ToNumber Null = Finite 0"
| "ToNumber (Boolean b) = Finite (if b then 1 else 0)"
| "ToNumber (Number n) = n"
| "ToNumber (String s) = StringToNumber s"
| "ToNumber (Array []) = Finite 0"
| "ToNumber (Array [Undefined]) = Finite 0"
| "ToNumber (Array [Null]) = Finite 0"
| "ToNumber (Array [Boolean b]) = NaN"
| "ToNumber (Array [Number n]) = n"
| "ToNumber (Array [String s]) = StringToNumber s"
| "ToNumber (Array [Array xs]) = ToNumber (Array xs)"
| "ToNumber (Array [Object]) = NaN"
| "ToNumber (Array (x # y # zs)) = NaN"
| "ToNumber Object = NaN"

section \<open>Documents\<close>

text \<open>
  One record per Mongoose schema, with the fields the route handlers read or write. An
  ObjectId is a natural number, a Date is a natural number of milliseconds.
\<close>

type_synonym oid = nat
type_synonym date = nat

datatype role = Student | Coach

record userDoc =
  user_id :: oid
  user_name :: string
  user_role :: role
  enrolledCourses :: "oid list"

record courseDoc =
  course_id :: oid
  course_coach :: oid
  course_students :: "oid list"
  course_skills :: "oid list"

record skillDoc =
  skill_id :: oid
  skill_course :: oid
  skill_tasks :: "oid list"

text \<open>
  The \<open>skill\<close> path of a task holds the id of its skill as it is stored. Populated with
  \<^verbatim>\<open>select: 'name'\<close> it holds the selected part of the skill document, or \<^verbatim>\<open>null\<close> when there
  is no such skill: the Skill schema has the paths \<open>title\<close>, \<open>description\<close>, \<open>course\<close> and
  \<open>tasks\<close> and no path \<open>name\<close>, so the selected part is the id of the skill alone.
\<close>

record 's taskOf =
  task_id :: oid
  task_title :: string
  task_skill :: 's

type_synonym taskDoc = "oid taskOf"

type_synonym populatedTask = "oid option taskOf"

record upload =
  url :: string
  originalName :: string
  uploadedAt :: date

text \<open>
  The \<open>task\<close> path of a task-progress subdocument holds the id of the task as it is
  stored, and the task document, or \<^verbatim>\<open>null\<close> when there is none, once it is populated.
\<close>

record 't taskProgressOf =
  tp_task :: 't
  completed :: bool
  completedAt :: "date option"
  coachRating :: "rat option"
  coachFeedback :: string
  coachRatedAt :: "date option"
  submittedForReview :: bool
  submittedAt :: "date option"
  studentUploads :: "upload list"
  reviewed :: bool
  approved :: "bool option"

type_synonym taskProgressEntry = "oid taskProgressOf"

type_synonym populatedTaskProgress = "populatedTask option taskProgressOf"

record progressDoc =
  progress_user :: oid
  progress_course :: oid
  completedTasks :: "oid list"
  taskProgress :: "taskProgressEntry list"
  totalTasks :: nat
  completedTasksCount :: nat
  averageRating :: rat
  lastActivity :: date

record studentDoc =
  student_name :: string
  score :: int
  badges :: "oid list"

record badgeDoc =
  badge_id :: oid
  badge_title :: string
  criteria :: string

record groupDoc =
  group_id :: oid
  group_name :: string
  creator :: oid
  members :: "oid list"
  coach :: "oid option"

text \<open>The database: one list of documents per collection, in natural (insertion) order.\<close>

record store =
  db_users :: "userDoc list"
  db_courses :: "courseDoc list"
  db_skills :: "skillDoc list"
  db_tasks :: "taskDoc list"
  db_progress :: "progressDoc list"
  db_students :: "studentDoc list"
  db_badges :: "badgeDoc list"
  db_groups :: "groupDoc list"

text \<open>The responses the handlers send on failure, by HTTP status.\<close>

datatype failure = BadRequest | NotAuthorized | Forbidden | NotFound | ServerError

fun status :: "failure \<Rightarrow> nat" where
  "status BadRequest = 400"
| "status NotAuthorized = 401"
| "status Forbidden = 403"
| "status NotFound = 404"
| "status ServerError = 500"

text \<open>The kinds of failure of the specification: validation, authorization, not found.\<close>

definition is_validation_error :: "failure \<Rightarrow> bool" where
  "is_validation_error e = (status e = 400)"

definition is_authorization_error :: "failure \<Rightarrow> bool" where
  "is_authorization_error e = (status e = 401 \<or> status e = 403)"

definition is_not_found_error :: "failure \<Rightarrow> bool" where
  "is_not_found_error e = (status e = 404)"

section \<open>Collection operations\<close>

text \<open>
  \<^verbatim>\<open>Model.findOne(query)\<close> is \<open>find\<close> on the collection: the first document that matches.
  \<^verbatim>\<open>doc.save()\<close> of a document that a query returned, and \<^verbatim>\<open>updateOne\<close>, replace the first
  document matching the query (\<open>updateFirst\<close>); \<^verbatim>\<open>deleteOne\<close> removes it (\<open>deleteFirst\<close>);
  \<^verbatim>\<open>deleteMany\<close> and \<^verbatim>\<open>updateMany\<close> act on every match.
\<close>

fun updateFirst :: "('a \<Rightarrow> bool) \<Rightarrow> ('a \<Rightarrow> 'a) \<Rightarrow> 'a list \<Rightarrow> 'a list" where
  "updateFirst P f [] = []"
| "updateFirst P f (x # xs) = (if P x then f x # xs else x # updateFirst P f xs)"

fun deleteFirst :: "('a \<Rightarrow> bool) \<Rightarrow> 'a list \<Rightarrow> 'a list" where
  "deleteFirst P [] = []"
| "deleteFirst P (x # xs) = (if P x then xs else x # deleteFirst P xs)"

definition deleteMany :: "('a \<Rightarrow> bool) \<Rightarrow> 'a list \<Rightarrow> 'a list" where
  "deleteMany P xs = filter (\<lambda>x. \<not> P x) xs"

text \<open>\<^verbatim>\<open>array.findIndex(p)\<close>: the first index whose element satisfies \<open>p\<close>; \<open>None\<close> is -1.\<close>

fun findIndex :: "('a \<Rightarrow> bool) \<Rightarrow> 'a list \<Rightarrow> nat option" where
  "findIndex P [] = None"
| "findIndex P (x # xs) =
     (if P x then Some 0 else map_option Suc (findIndex P xs))"

text \<open>
  \<^verbatim>\<open>populate\<close> replaces each reference of an array by the document it names; a reference
  that names no document is dropped from the populated array.
\<close>

definition populateTasks :: "taskDoc list \<Rightarrow> oid list \<Rightarrow> taskDoc list" where
  "populateTasks ts ids = List.map_filter (\<lambda>i. find (\<lambda>t. task_id t = i) ts) ids"

text \<open>
  \<^verbatim>\<open>Skill.find({ course }).populate('tasks')\<close> followed by
  \<^verbatim>\<open>skills.flatMap(skill => skill.tasks.map(task => task._id))\<close>.
\<close>

definition allTasks :: "store \<Rightarrow> oid \<Rightarrow> oid list" where
  "allTasks db courseId =
     concat (map (\<lambda>skill. map task_id (populateTasks (db_tasks db) (skill_tasks skill)))
       (filter (\<lambda>skill. skill_course skill = courseId) (db_skills db)))"

text \<open>
  \<^verbatim>\<open>populate({ path: 'taskProgress.task', populate: { path: 'skill', select: 'name' } })\<close>
  replaces the reference of each entry by the task it names, and in that task the
  reference to the skill by the selected part of the skill; an entry whose task no longer
  exists keeps its place, with \<^verbatim>\<open>null\<close> for the task.
\<close>

definition populateSkill :: "skillDoc list \<Rightarrow> taskDoc \<Rightarrow> populatedTask" where
  "populateSkill ss t =
     \<lparr>task_id = task_id t, task_title = task_title t,
      task_skill = map_option skill_id (find (\<lambda>s. skill_id s = task_skill t) ss)\<rparr>"

definition populateTaskProgress ::
    "skillDoc list \<Rightarrow> taskDoc list \<Rightarrow> taskProgressEntry \<Rightarrow> populatedTaskProgress" where
  "populateTaskProgress ss ts tp =
     \<lparr>tp_task = map_option (populateSkill ss) (find (\<lambda>t. task_id t = tp_task tp) ts),
      completed = completed tp, completedAt = completedAt tp,
      coachRating = coachRating tp, coachFeedback = coachFeedback tp,
      coachRatedAt = coachRatedAt tp, submittedForReview = submittedForReview tp,
      submittedAt = submittedAt tp, studentUploads = studentUploads tp,
      reviewed = reviewed tp, approved = approved tp\<rparr>"

text \<open>
  A filter on a String path with \<^verbatim>\<open>trim: true\<close> is cast like a value of that path:
  Mongoose applies the setters of the path to the filter value, so the query compares the
  stored value with the trimmed one.

  A value assigned to a Number path is cast by Mongoose: \<^verbatim>\<open>null\<close> and the empty text are
  \<^verbatim>\<open>null\<close>, a text or a boolean is converted with \<^verbatim>\<open>Number(v)\<close>, and what is then no Number,
  or is \<^verbatim>\<open>NaN\<close>, is a cast error. The assignment records the error in the document and
  leaves the path as it was; \<^verbatim>\<open>save()\<close> then fails. \<^verbatim>\<open>save()\<close> also fails when a validator of
  the path does: \<open>validRating\<close> is \<^verbatim>\<open>min: 1, max: 5\<close> of \<open>coachRating\<close>, which accept \<^verbatim>\<open>null\<close>.
\<close>

datatype castResult = CastError | CastNull | CastNumber jsNumber

fun castNumber :: "jsValue \<Rightarrow> castResult" where
  "castNumber Undefined = CastNull"
| "castNumber Null = CastNull"
| "castNumber (Boolean b) = CastNumber (Finite (if b then 1 else 0))"
| "castNumber (Number n) = (if n = NaN then CastError else CastNumber n)"
| "castNumber (String s) =
     (if s = [] then CastNull
      else case StringToNumber s of NaN \<Rightarrow> CastError | n \<Rightarrow> CastNumber n)"
| "castNumber (Array xs) = CastError"
| "castNumber Object = CastError"

fun validRating :: "castResult \<Rightarrow> rat option option" where
  "validRating CastError = None"
| "validRating CastNull = Some None"
| "validRating (CastNumber (Finite r)) = (if 1 \<le> r \<and> r \<le> 5 then Some (Some r) else None)"
| "validRating (CastNumber n) = None"

definition findProgress :: "oid \<Rightarrow> oid \<Rightarrow> store \<Rightarrow> progressDoc option" where
  "findProgress userId courseId db =
     find (\<lambda>p. progress_user p = userId \<and> progress_course p = courseId) (db_progress db)"

text \<open>
  \<^verbatim>\<open>progress.save()\<close>: a document that \<open>findProgress\<close> returned replaces the stored one, a new
  document is inserted at the end of the collection.
\<close>

definition saveProgress :: "progressDoc option \<Rightarrow> progressDoc \<Rightarrow> store \<Rightarrow> store" where
  "saveProgress found p db =
     (case found of
        None \<Rightarrow> db\<lparr>db_progress := db_progress db @ [p]\<rparr>
      | Some _ \<Rightarrow> db\<lparr>db_progress :=
          updateFirst (\<lambda>q. progress_user q = progress_user p \<and> progress_course q = progress_course p)
            (\<lambda>_. p) (db_progress db)\<rparr>)"

text \<open>\<^verbatim>\<open>new Progress({ user, course, completedTasks: [] })\<close> with the schema defaults.\<close>

definition newProgress :: "oid \<Rightarrow> oid \<Rightarrow> date \<Rightarrow> progressDoc" where
  "newProgress userId courseId now =
     \<lparr>progress_user = userId, progress_course = courseId, completedTasks = [],
      taskProgress = [], totalTasks = 0, completedTasksCount = 0, averageRating = 0,
      lastActivity = now\<rparr>"

section \<open>Progress model methods\<close>

definition getCompletionPercentage :: "progressDoc \<Rightarrow> int" where
  "getCompletionPercentage p =
     (if totalTasks p = 0 then 0
      else Math_round (js_mul (js_div (of_nat (completedTasksCount p)) (of_nat (totalTasks p))) 100))"

text \<open>In the sum, a \<^verbatim>\<open>null\<close> rating would count as 0, as JavaScript's \<^verbatim>\<open>+\<close> converts it.\<close>

definition ratingValue :: "taskProgressEntry \<Rightarrow> rat" where
  "ratingValue tp = (case coachRating tp of None \<Rightarrow> 0 | Some r \<Rightarrow> r)"

definition getAverageRating :: "progressDoc \<Rightarrow> rat" where
  "getAverageRating p =
     (let ratedTasks = filter (\<lambda>tp. coachRating tp \<noteq> None) (taskProgress p)
      in if length ratedTasks = 0 then 0
         else let totalRating = foldl (\<lambda>sum tp. js_add sum (ratingValue tp)) 0 ratedTasks
              in js_div (of_int (Math_round
                   (js_mul (js_div totalRating (of_nat (length ratedTasks))) 10))) 10)"

section \<open>Progress routes\<close>

text \<open>
  A handler takes the authenticated caller (\<^verbatim>\<open>req.user\<close>, set by the \<^verbatim>\<open>protect\<close>
  middleware), the request parameters, the current time where it reads the clock, and the
  database; it returns the new database with the response, or the failure response. A
  handler that fails has written nothing, so a failure carries no database.
\<close>

subsection \<open>Badge awarding (in POST /progress/complete-task)\<close>

text \<open>
  The aggregate \<^verbatim>\<open>$match { user } / $unwind completedTasks / $group count\<close> counts the
  entries of \<open>completedTasks\<close> over all progress documents of the user.
  \<^verbatim>\<open>student.badges.includes(badge._id)\<close> on a Mongoose array compares ObjectIds by value.
  The \<open>name\<close> path of the Student schema is \<^verbatim>\<open>trim: true\<close> (that of the User schema is not),
  so \<^verbatim>\<open>Student.findOne({ name: req.user.name })\<close> finds the profile whose name is the
  trimmed name of the caller. \<^verbatim>\<open>student.save()\<close> writes the document that the query returned.
\<close>

definition totalCompleted :: "oid \<Rightarrow> store \<Rightarrow> nat" where
  "totalCompleted userId db =
     sum_list (map (\<lambda>p. length (completedTasks p))
       (filter (\<lambda>p. progress_user p = userId) (db_progress db)))"

definition awardBadges :: "userDoc \<Rightarrow> store \<Rightarrow> store \<times> badgeDoc list" where
  "awardBadges caller db =
     (case find (\<lambda>s. student_name s = trim (user_name caller)) (db_students db) of
        None \<Rightarrow> (db, [])
      | Some student \<Rightarrow>
          (case find (\<lambda>b. criteria b = ''Complete 5 tasks'') (db_badges db) of
             None \<Rightarrow> (db, [])
           | Some badge \<Rightarrow>
               if 5 \<le> totalCompleted (user_id caller) db \<and> badge_id badge \<notin> set (badges student)
               then (db\<lparr>db_students :=
                        updateFirst (\<lambda>s. student_name s = trim (user_name caller))
                          (\<lambda>_. student\<lparr>badges := badges student @ [badge_id badge]\<rparr>)
                          (db_students db)\<rparr>,
                     [badge])
               else (db, [])))"

subsection \<open>POST /progress/complete-task\<close>

record completeTaskResponse =
  response_progress :: progressDoc
  newBadges :: "badgeDoc list"

definition markCompleted :: "oid \<Rightarrow> oid \<Rightarrow> store \<Rightarrow> progressDoc \<Rightarrow> progressDoc" where
  "markCompleted taskId courseId db progress =
     (let progress1 =
            (if taskId \<in> set (completedTasks progress) then progress
             else progress\<lparr>completedTasks := completedTasks progress @ [taskId]\<rparr>);
          progress2 = progress1\<lparr>completedTasksCount := length (completedTasks progress1)\<rparr>
      in progress2\<lparr>totalTasks := length (allTasks db courseId)\<rparr>)"

definition completeTask ::
    "userDoc \<Rightarrow> oid \<Rightarrow> oid \<Rightarrow> date \<Rightarrow> store \<Rightarrow> store \<times> completeTaskResponse" where
  "completeTask caller taskId courseId now db =
     (let found = findProgress (user_id caller) courseId db;
          progress = (case found of
                        None \<Rightarrow> newProgress (user_id caller) courseId now
                      | Some p \<Rightarrow> p);
          savedProgress = markCompleted taskId courseId db progress;
          db1 = saveProgress found savedProgress db;
          (db2, granted) = awardBadges caller db1
      in (db2, \<lparr>response_progress = savedProgress, newBadges = granted\<rparr>))"

subsection \<open>GET /progress/:courseId\<close>

text \<open>
  The query populates \<open>completedTasks\<close>, so the count is taken over the completed tasks that
  still exist. Populating does not mark the path as modified: \<^verbatim>\<open>save()\<close> writes the two
  counts and leaves the stored references as they are. Without a document the handler
  answers with the literal \<^verbatim>\<open>{ completedTasks: [], completedTasksCount: 0, totalTasks: 0 }\<close>.
\<close>

datatype progressResponse =
    NoProgress
  | ProgressJson progressDoc "taskDoc list"

fun response_completedTasks :: "progressResponse \<Rightarrow> taskDoc list" where
  "response_completedTasks NoProgress = []"
| "response_completedTasks (ProgressJson p ts) = ts"

fun response_completedTasksCount :: "progressResponse \<Rightarrow> nat" where
  "response_completedTasksCount NoProgress = 0"
| "response_completedTasksCount (ProgressJson p ts) = completedTasksCount p"

fun response_totalTasks :: "progressResponse \<Rightarrow> nat" where
  "response_totalTasks NoProgress = 0"
| "response_totalTasks (ProgressJson p ts) = totalTasks p"

definition getProgress :: "userDoc \<Rightarrow> oid \<Rightarrow> store \<Rightarrow> store \<times> progressResponse" where
  "getProgress caller courseId db =
     (case findProgress (user_id caller) courseId db of
        None \<Rightarrow> (db, NoProgress)
      | Some progress \<Rightarrow>
          let populated = populateTasks (db_tasks db) (completedTasks progress);
              progress1 = progress\<lparr>completedTasksCount := length populated\<rparr>;
              progress2 = progress1\<lparr>totalTasks := length (allTasks db courseId)\<rparr>
          in (saveProgress (Some progress) progress2 db, ProgressJson progress2 populated))"

subsection \<open>POST /progress/submit-task\<close>

record uploadedFile =
  filename :: string
  originalname :: string

definition toUpload :: "date \<Rightarrow> uploadedFile \<Rightarrow> upload" where
  "toUpload now file =
     \<lparr>url = ''uploads/'' @ filename file, originalName = originalname file, uploadedAt = now\<rparr>"

text \<open>A task-progress subdocument cast from \<^verbatim>\<open>{ task: taskId, studentUploads: [] }\<close>.\<close>

definition newTaskProgress :: "oid \<Rightarrow> taskProgressEntry" where
  "newTaskProgress taskId =
     \<lparr>tp_task = taskId, completed = False, completedAt = None, coachRating = None,
      coachFeedback = [], coachRatedAt = None, submittedForReview = False, submittedAt = None,
      studentUploads = [], reviewed = False, approved = None\<rparr>"

text \<open>
  When the entry exists, \<^verbatim>\<open>find\<close> returns the subdocument itself, and the uploads and the
  two submission fields are written to it. When it does not, the handler builds a plain
  object \<^verbatim>\<open>tp\<close> and pushes it: \<^verbatim>\<open>progress.taskProgress.push(tp)\<close> on a Mongoose document
  array casts its argument to a new subdocument and stores that one. The handler goes on
  writing to its own \<^verbatim>\<open>tp\<close>, which is not part of the document, so the stored entry keeps
  the values it was cast with.
\<close>

definition recordSubmission :: "oid \<Rightarrow> uploadedFile list \<Rightarrow> date \<Rightarrow> progressDoc \<Rightarrow> progressDoc" where
  "recordSubmission taskId files now progress =
     (case find (\<lambda>tp. tp_task tp = taskId) (taskProgress progress) of
        Some _ \<Rightarrow>
          progress\<lparr>taskProgress :=
            updateFirst (\<lambda>tp. tp_task tp = taskId)
              (\<lambda>tp. tp\<lparr>studentUploads := studentUploads tp @ map (toUpload now) files,
                        submittedForReview := True, submittedAt := Some now\<rparr>)
              (taskProgress progress)\<rparr>
      | None \<Rightarrow>
          progress\<lparr>taskProgress := taskProgress progress @ [newTaskProgress taskId]\<rparr>)"

definition submitTask ::
    "userDoc \<Rightarrow> oid \<Rightarrow> oid \<Rightarrow> uploadedFile list \<Rightarrow> date \<Rightarrow> store
      \<Rightarrow> failure + store \<times> progressDoc" where
  "submitTask caller taskId courseId files now db =
     (if length files = 0 then Inl BadRequest
      else let found = findProgress (user_id caller) courseId db;
               progress = (case found of
                             None \<Rightarrow> newProgress (user_id caller) courseId now
                           | Some p \<Rightarrow> p);
               progress1 = recordSubmission taskId files now progress
           in Inr (saveProgress found progress1 db, progress1))"

section \<open>Course routes\<close>

text \<open>
  The routes of coaches are mounted behind the \<^verbatim>\<open>coach\<close> middleware, which admits a caller
  by role before the handler runs. The handlers below are what runs for an admitted
  caller; the check that the caller owns the course is their own.
\<close>

subsection \<open>POST /courses/:id/rate-task\<close>

text \<open>
  \<open>rating\<close> is the value of that name in the request body. The check of the rating comes
  first, then the course, its owner, the record and the entry. The rating is cast when it
  is assigned to the entry, and a rating that cannot be cast or is refused by the
  validators of the path makes \<^verbatim>\<open>save()\<close> fail: the \<^verbatim>\<open>catch\<close> block answers 500 and nothing
  is written. \<open>feedback\<close> is the text in the body, \<open>None\<close> when the body has none, with
  \<^verbatim>\<open>feedback || ''\<close>.
\<close>

definition rateTask ::
    "userDoc \<Rightarrow> oid \<Rightarrow> oid \<Rightarrow> oid \<Rightarrow> jsValue \<Rightarrow> string option \<Rightarrow> date \<Rightarrow> store
      \<Rightarrow> failure + store \<times> taskProgressEntry" where
  "rateTask caller courseId studentId taskId rating feedback now db =
     (if \<not> ToBoolean rating \<or> js_less (ToNumber rating) (Finite 1)
           \<or> js_less (Finite 5) (ToNumber rating)
      then Inl BadRequest
      else (case find (\<lambda>c. course_id c = courseId) (db_courses db) of
         None \<Rightarrow> Inl NotFound
       | Some course \<Rightarrow>
           if course_coach course \<noteq> user_id caller then Inl NotAuthorized
           else (case findProgress studentId courseId db of
              None \<Rightarrow> Inl NotFound
            | Some progress \<Rightarrow>
                (case findIndex (\<lambda>tp. tp_task tp = taskId) (taskProgress progress) of
                   None \<Rightarrow> Inl NotFound
                 | Some i \<Rightarrow>
                     (case validRating (castNumber rating) of
                        None \<Rightarrow> Inl ServerError
                      | Some r \<Rightarrow>
                          let entry = (taskProgress progress ! i)
                                \<lparr>coachRating := r,
                                 coachFeedback := (case feedback of None \<Rightarrow> [] | Some f \<Rightarrow> f),
                                 coachRatedAt := Some now,
                                 submittedForReview := False\<rparr>;
                              progress1 = progress\<lparr>taskProgress := (taskProgress progress)[i := entry]\<rparr>;
                              progress2 = progress1\<lparr>averageRating := getAverageRating progress1\<rparr>
                          in Inr (saveProgress (Some progress) progress2 db, entry))))))"

subsection \<open>GET /courses/:id/student/:studentId/progress\<close>

text \<open>
  The query populates \<open>taskProgress.task\<close> (and \<open>user\<close>), and the response takes the two
  counts from the document as it is stored. The \<open>progress\<close> object of the response is the
  record below; beside it the response holds the populated user and the skills of the
  course with their tasks.
\<close>

record studentProgressResponse =
  sp_completedTasks :: nat
  sp_totalTasks :: nat
  sp_completionPercentage :: int
  sp_averageRating :: rat
  sp_lastActivity :: date
  sp_taskProgress :: "populatedTaskProgress list"

definition studentProgress ::
    "userDoc \<Rightarrow> oid \<Rightarrow> oid \<Rightarrow> store \<Rightarrow> failure + store \<times> studentProgressResponse" where
  "studentProgress caller courseId studentId db =
     (case find (\<lambda>c. course_id c = courseId) (db_courses db) of
        None \<Rightarrow> Inl NotFound
      | Some course \<Rightarrow>
          if course_coach course \<noteq> user_id caller then Inl NotAuthorized
          else (case findProgress studentId courseId db of
             None \<Rightarrow> Inl NotFound
           | Some progress \<Rightarrow>
               Inr (db, \<lparr>sp_completedTasks = completedTasksCount progress,
                         sp_totalTasks = totalTasks progress,
                         sp_completionPercentage = getCompletionPercentage progress,
                         sp_averageRating = getAverageRating progress,
                         sp_lastActivity = lastActivity progress,
                         sp_taskProgress =
                           map (populateTaskProgress (db_skills db) (db_tasks db))
                             (taskProgress progress)\<rparr>)))"

subsection \<open>DELETE /courses/:id\<close>

definition deleteCourse :: "userDoc \<Rightarrow> oid \<Rightarrow> store \<Rightarrow> failure + store" where
  "deleteCourse caller courseId db =
     (case find (\<lambda>c. course_id c = courseId) (db_courses db) of
        None \<Rightarrow> Inl NotFound
      | Some course \<Rightarrow>
          if course_coach course \<noteq> user_id caller then Inl NotAuthorized
          else
            let db1 = db\<lparr>db_users :=
                        map (\<lambda>u. u\<lparr>enrolledCourses := removeAll (course_id course) (enrolledCourses u)\<rparr>)
                          (db_users db)\<rparr>;
                skills = filter (\<lambda>s. skill_course s = course_id course) (db_skills db1);
                db2 = foldl (\<lambda>d skill. d\<lparr>db_tasks :=
                               deleteMany (\<lambda>t. task_skill t = skill_id skill) (db_tasks d)\<rparr>)
                        db1 skills;
                db3 = db2\<lparr>db_skills := deleteMany (\<lambda>s. skill_course s = course_id course) (db_skills db2)\<rparr>;
                db4 = db3\<lparr>db_progress :=
                        deleteMany (\<lambda>p. progress_course p = course_id course) (db_progress db3)\<rparr>
            in Inr (db4\<lparr>db_courses := deleteFirst (\<lambda>c. course_id c = courseId) (db_courses db4)\<rparr>))"

section \<open>Skill routes\<close>

text \<open>Both routes are behind the \<^verbatim>\<open>coach\<close> middleware as well.\<close>

subsection \<open>DELETE /skills/tasks/:taskId\<close>

text \<open>The content files of the task are unlinked from the upload directory; the database
  does not record them.\<close>

definition deleteTask :: "userDoc \<Rightarrow> oid \<Rightarrow> store \<Rightarrow> failure + store" where
  "deleteTask caller taskId db =
     (case find (\<lambda>t. task_id t = taskId) (db_tasks db) of
        None \<Rightarrow> Inl NotFound
      | Some task \<Rightarrow>
          (case find (\<lambda>s. skill_id s = task_skill task) (db_skills db) of
             None \<Rightarrow> Inr (db\<lparr>db_tasks := deleteFirst (\<lambda>t. task_id t = task_id task) (db_tasks db)\<rparr>)
           | Some skill \<Rightarrow>
               (case find (\<lambda>c. course_id c = skill_course skill) (db_courses db) of
                  None \<Rightarrow> Inl NotAuthorized
                | Some course \<Rightarrow>
                    if course_coach course \<noteq> user_id caller then Inl NotAuthorized
                    else
                      let db1 = db\<lparr>db_skills :=
                                  updateFirst (\<lambda>s. skill_id s = task_skill task)
                                    (\<lambda>s. s\<lparr>skill_tasks := removeAll taskId (skill_tasks s)\<rparr>)
                                    (db_skills db)\<rparr>
                      in Inr (db1\<lparr>db_tasks :=
                                deleteFirst (\<lambda>t. task_id t = task_id task) (db_tasks db1)\<rparr>))))"

subsection \<open>DELETE /skills/:skillId\<close>

definition deleteSkill :: "userDoc \<Rightarrow> oid \<Rightarrow> store \<Rightarrow> failure + store" where
  "deleteSkill caller skillId db =
     (case find (\<lambda>s. skill_id s = skillId) (db_skills db) of
        None \<Rightarrow> Inl NotFound
      | Some skill \<Rightarrow>
          (case find (\<lambda>c. course_id c = skill_course skill) (db_courses db) of
             None \<Rightarrow> Inl NotAuthorized
           | Some course \<Rightarrow>
               if course_coach course \<noteq> user_id caller then Inl NotAuthorized
               else
                 let db1 = db\<lparr>db_tasks := deleteMany (\<lambda>t. task_skill t = skillId) (db_tasks db)\<rparr>;
                     db2 = db1\<lparr>db_courses :=
                             updateFirst (\<lambda>c. course_id c = skill_course skill)
                               (\<lambda>c. c\<lparr>course_skills := removeAll skillId (course_skills c)\<rparr>)
                               (db_courses db1)\<rparr>
                 in Inr (db2\<lparr>db_skills :=
                           deleteFirst (\<lambda>s. skill_id s = skill_id skill) (db_skills db2)\<rparr>)))"

section \<open>Group routes\<close>

definition saveGroup :: "groupDoc \<Rightarrow> store \<Rightarrow> store" where
  "saveGroup g db =
     db\<lparr>db_groups := updateFirst (\<lambda>h. group_id h = group_id g) (\<lambda>_. g) (db_groups db)\<rparr>"

subsection \<open>POST /groups/:groupId/remove-member\<close>

definition removeMember :: "userDoc \<Rightarrow> oid \<Rightarrow> oid \<Rightarrow> store \<Rightarrow> failure + store" where
  "removeMember caller groupId memberId db =
     (case find (\<lambda>g. group_id g = groupId) (db_groups db) of
        None \<Rightarrow> Inl NotFound
      | Some grp \<Rightarrow>
          if creator grp \<noteq> user_id caller \<and>
             (coach grp = None \<or> coach grp \<noteq> Some (user_id caller))
          then Inl Forbidden
          else Inr (saveGroup (grp\<lparr>members := filter (\<lambda>m. m \<noteq> memberId) (members grp)\<rparr>) db))"

subsection \<open>POST /groups/:groupId/leave\<close>

definition leaveGroup :: "userDoc \<Rightarrow> oid \<Rightarrow> store \<Rightarrow> failure + store" where
  "leaveGroup caller groupId db =
     (case find (\<lambda>g. group_id g = groupId) (db_groups db) of
        None \<Rightarrow> Inl NotFound
      | Some grp \<Rightarrow>
          if creator grp = user_id caller then Inl Forbidden
          else Inr (saveGroup (grp\<lparr>members := filter (\<lambda>m. m \<noteq> user_id caller) (members grp)\<rparr>) db))"

section \<open>Reference notions\<close>

text \<open>
  The tasks reachable from the skills of a course: the tasks that exist and that a skill of
  the course lists. \<open>courseTaskRefs\<close> is the flattened list of those skills' references.
\<close>

definition reachableTasks :: "store \<Rightarrow> oid \<Rightarrow> oid set" where
  "reachableTasks db courseId =
     {t. (\<exists>task \<in> set (db_tasks db). task_id task = t) \<and>
         (\<exists>skill \<in> set (db_skills db). skill_course skill = courseId \<and> t \<in> set (skill_tasks skill))}"

definition courseTaskRefs :: "store \<Rightarrow> oid \<Rightarrow> oid list" where
  "courseTaskRefs db courseId =
     concat (map skill_tasks (filter (\<lambda>skill. skill_course skill = courseId) (db_skills db)))"

text \<open>The pairs of user and course that have a Progress record.\<close>

definition progressKeys :: "store \<Rightarrow> (oid \<times> oid) set" where
  "progressKeys db = set (map (\<lambda>p. (progress_user p, progress_course p)) (db_progress db))"

text \<open>A run of \<open>completeTask\<close> requests, one after the other.\<close>

fun completeTaskCall :: "store \<Rightarrow> userDoc \<times> oid \<times> oid \<times> date \<Rightarrow> store" where
  "completeTaskCall db (caller, taskId, courseId, now) = fst (completeTask caller taskId courseId now db)"




section \<open>Example states\<close>

text \<open>
  The students alice and bob, the coach carol with a course of one skill and one task, and
  a second coach, dave, who has no course.
\<close>

definition alice :: userDoc where
  "alice = \<lparr>user_id = 5, user_name = ''alice'', user_role = Student, enrolledCourses = [1]\<rparr>"

definition bob :: userDoc where
  "bob = \<lparr>user_id = 6, user_name = ''bob'', user_role = Student, enrolledCourses = [1]\<rparr>"

definition carol :: userDoc where
  "carol = \<lparr>user_id = 9, user_name = ''carol'', user_role = Coach, enrolledCourses = []\<rparr>"

definition dave :: userDoc where
  "dave = \<lparr>user_id = 10, user_name = ''dave'', user_role = Coach, enrolledCourses = []\<rparr>"

definition course_1 :: courseDoc where
  "course_1 = \<lparr>course_id = 1, course_coach = 9, course_students = [5], course_skills = [1]\<rparr>"

definition catalog_db :: store where
  "catalog_db =
     \<lparr>db_users = [alice, carol],
      db_courses = [course_1],
      db_skills = [\<lparr>skill_id = 1, skill_course = 1, skill_tasks = [1]\<rparr>],
      db_tasks = [\<lparr>task_id = 1, task_title = ''T1'', task_skill = 1\<rparr>],
      db_progress = [], db_students = [], db_badges = [], db_groups = []\<rparr>"

definition report_file :: uploadedFile where
  "report_file = \<lparr>filename = ''17-report.pdf'', originalname = ''report.pdf''\<rparr>"

text \<open>The record and the database that alice's first submission for task 1 leaves, at time 7.\<close>

definition first_submission_progress :: progressDoc where
  "first_submission_progress =
     \<lparr>progress_user = 5, progress_course = 1, completedTasks = [],
      taskProgress = [newTaskProgress 1], totalTasks = 0, completedTasksCount = 0,
      averageRating = 0, lastActivity = 7\<rparr>"

definition first_submission_db :: store where
  "first_submission_db = catalog_db\<lparr>db_progress := [first_submission_progress]\<rparr>"

text \<open>
  A database where alice has a Progress record for course 1 with a submitted entry for
  task 1; then the same after she has completed task 1; and after carol has rated it
  instead.
\<close>

definition submitted_entry :: taskProgressEntry where
  "submitted_entry =
     (newTaskProgress 1)\<lparr>studentUploads := [toUpload 7 report_file],
                          submittedForReview := True, submittedAt := Some 7\<rparr>"

definition working_progress :: progressDoc where
  "working_progress =
     \<lparr>progress_user = 5, progress_course = 1, completedTasks = [],
      taskProgress = [submitted_entry], totalTasks = 1, completedTasksCount = 0,
      averageRating = 0, lastActivity = 7\<rparr>"

definition working_db :: store where
  "working_db = catalog_db\<lparr>db_progress := [working_progress]\<rparr>"

definition completed_progress :: progressDoc where
  "completed_progress = working_progress\<lparr>completedTasks := [1], completedTasksCount := 1\<rparr>"

definition completed_db :: store where
  "completed_db = catalog_db\<lparr>db_progress := [completed_progress]\<rparr>"

definition rated_entry :: taskProgressEntry where
  "rated_entry =
     submitted_entry\<lparr>coachRating := Some 4, coachFeedback := ''good'', coachRatedAt := Some 9,
                      submittedForReview := False\<rparr>"

definition rated_progress :: progressDoc where
  "rated_progress = working_progress\<lparr>taskProgress := [rated_entry], averageRating := 4\<rparr>"

definition rated_db :: store where
  "rated_db = catalog_db\<lparr>db_progress := [rated_progress]\<rparr>"

text \<open>
  The database \<open>completed_db\<close> after carol has deleted task 1; after she has deleted skill 1
  instead; after she has deleted course 1 instead.
\<close>

definition deleted_db :: store where
  "deleted_db =
     catalog_db\<lparr>db_skills := [\<lparr>skill_id = 1, skill_course = 1, skill_tasks = []\<rparr>],
                db_tasks := [], db_progress := [completed_progress]\<rparr>"

definition skill_deleted_db :: store where
  "skill_deleted_db =
     catalog_db\<lparr>db_courses := [course_1\<lparr>course_skills := []\<rparr>],
                db_skills := [], db_tasks := [], db_progress := [completed_progress]\<rparr>"

definition course_deleted_db :: store where
  "course_deleted_db =
     \<lparr>db_users = [alice\<lparr>enrolledCourses := []\<rparr>, carol],
      db_courses = [], db_skills = [], db_tasks = [], db_progress = [],
      db_students = [], db_badges = [], db_groups = []\<rparr>"

text \<open>
  What carol is told of alice's progress once task 1 is deleted, and the record and the
  database after alice has then read her progress herself.
\<close>

definition stale_response :: studentProgressResponse where
  "stale_response =
     \<lparr>sp_completedTasks = 1, sp_totalTasks = 1, sp_completionPercentage = 100,
      sp_averageRating = 0, sp_lastActivity = 7,
      sp_taskProgress =
        [\<lparr>tp_task = None, completed = False, completedAt = None, coachRating = None,
          coachFeedback = [], coachRatedAt = None, submittedForReview = True,
          submittedAt = Some 7, studentUploads = [toUpload 7 report_file],
          reviewed = False, approved = None\<rparr>]\<rparr>"

definition reread_progress :: progressDoc where
  "reread_progress = completed_progress\<lparr>completedTasksCount := 0, totalTasks := 0\<rparr>"

definition reread_db :: store where
  "reread_db = deleted_db\<lparr>db_progress := [reread_progress]\<rparr>"

text \<open>Progress documents with 23 of 40 and with 1 of 4 tasks completed.\<close>

definition progress_23_of_40 :: progressDoc where
  "progress_23_of_40 =
     \<lparr>progress_user = 5, progress_course = 1, completedTasks = [1..<24], taskProgress = [],
      totalTasks = 40, completedTasksCount = 23, averageRating = 0, lastActivity = 7\<rparr>"

definition progress_1_of_4 :: progressDoc where
  "progress_1_of_4 =
     \<lparr>progress_user = 5, progress_course = 1, completedTasks = [1], taskProgress = [],
      totalTasks = 4, completedTasksCount = 1, averageRating = 0, lastActivity = 7\<rparr>"




text \<open>
  A group created by alice, with bob as a second member and carol as its coach; and that
  database with a Progress record for bob and none for alice.
\<close>

definition study_group :: groupDoc where
  "study_group = \<lparr>group_id = 1, group_name = ''study'', creator = 5, members = [5, 6], coach = Some 9\<rparr>"

definition groups_db :: store where
  "groups_db = catalog_db\<lparr>db_groups := [study_group]\<rparr>"

definition bob_db :: store where
  "bob_db = groups_db\<lparr>db_progress := [working_progress\<lparr>progress_user := 6\<rparr>]\<rparr>"

text \<open>
  The badge for five completed tasks, and databases where alice has a student profile and
  has completed four and five tasks.
\<close>

definition five_badge :: badgeDoc where
  "five_badge = \<lparr>badge_id = 3, badge_title = ''High five'', criteria = ''Complete 5 tasks''\<rparr>"

definition four_done_db :: store where
  "four_done_db =
     catalog_db\<lparr>db_progress :=
                  [\<lparr>progress_user = 5, progress_course = 1, completedTasks = [11, 12, 13, 14],
                    taskProgress = [], totalTasks = 1, completedTasksCount = 4,
                    averageRating = 0, lastActivity = 7\<rparr>],
                db_students := [\<lparr>student_name = ''alice'', score = 0, badges = []\<rparr>],
                db_badges := [five_badge]\<rparr>"

definition five_done_db :: store where
  "five_done_db =
     four_done_db\<lparr>db_progress :=
                  [\<lparr>progress_user = 5, progress_course = 1, completedTasks = [11, 12, 13, 14, 15],
                    taskProgress = [], totalTasks = 1, completedTasksCount = 5,
                    averageRating = 0, lastActivity = 7\<rparr>]\<rparr>"

text \<open>
  The student erin, whose user name has a blank at both ends while her student profile has
  the trimmed name; she has completed five tasks. Then the same once the badge is granted.
\<close>

definition erin :: userDoc where
  "erin = \<lparr>user_id = 7, user_name = '' erin '', user_role = Student, enrolledCourses = [1]\<rparr>"

definition erin_done_db :: store where
  "erin_done_db =
     catalog_db\<lparr>db_progress :=
                  [\<lparr>progress_user = 7, progress_course = 1, completedTasks = [11, 12, 13, 14, 15],
                    taskProgress = [], totalTasks = 1, completedTasksCount = 5,
                    averageRating = 0, lastActivity = 7\<rparr>],
                db_students := [\<lparr>student_name = ''erin'', score = 0, badges = []\<rparr>],
                db_badges := [five_badge]\<rparr>"

definition erin_badge_db :: store where
  "erin_badge_db =
     erin_done_db\<lparr>db_students := [\<lparr>student_name = ''erin'', score = 0, badges = [3]\<rparr>]\<rparr>"

section \<open>Properties of the number model\<close>

text \<open>
  Rounding to a double moves a non-negative value by at most the fraction \<open>2\<^sup>-\<^sup>5\<^sup>3\<close> of
  it: the significand is rounded to the nearest integer, and one unit of it is at most
  \<open>2\<^sup>-\<^sup>5\<^sup>2\<close> of the value.
\<close>

lemma round_half_even_error: "\<bar>of_int (round_half_even y) - y\<bar> \<le> 1 / 2"
proof -
  have "of_int \<lfloor>y\<rfloor> \<le> y" "y < of_int \<lfloor>y\<rfloor> + 1" by linarith+
  then show ?thesis
    unfolding round_half_even_def Let_def by (auto simp: abs_le_iff)
qed

lemma round_half_even_nonneg: "0 \<le> y \<Longrightarrow> 0 \<le> round_half_even y"
  unfolding round_half_even_def Let_def by auto

lemma quotient_of_pos:
  assumes "0 < x" "quotient_of x = (p, q)"
  shows "0 < p" "0 < q" "x = of_int p / of_int q"
proof -
  show q: "0 < q" using assms(2) quotient_of_denom_pos by blast
  show x: "x = of_int p / of_int q" using assms(2) by (simp add: quotient_of_div)
  show "0 < p" using assms(1) q x by (simp add: zero_less_divide_iff)
qed

lemma floor_log2_bounds:
  assumes "0 < x"
  shows "2 powi (floor_log2 x) \<le> x" and "x < 2 powi (floor_log2 x + 1)"
proof -
  obtain p q where pq: "quotient_of x = (p, q)" by (cases "quotient_of x")
  from quotient_of_pos[OF assms pq] have p: "0 < p" and q: "0 < q" and x: "x = of_int p / of_int q"
    by auto
  define a where "a = nat (bitlen p - 1)"
  define b where "b = nat (bitlen q - 1)"
  have bp: "bitlen p = int a + 1" "2 ^ a \<le> p" "p < 2 ^ (a + 1)"
    using bitlen_bounds[OF p] p by (auto simp: a_def bitlen_alt_def nat_add_distrib)
  have bq: "bitlen q = int b + 1" "2 ^ b \<le> q" "q < 2 ^ (b + 1)"
    using bitlen_bounds[OF q] q by (auto simp: b_def bitlen_alt_def nat_add_distrib)
  have d: "bitlen p - bitlen q = int a - int b" using bp bq by simp
  have lo: "(2::rat) powi (int a - int b - 1) \<le> x"
  proof -
    have "(2::rat) powi (int a - int b - 1) = 2 ^ a / 2 ^ (b + 1)"
      by (simp add: power_int_diff power_int_add)
    also have "\<dots> \<le> of_int p / of_int q"
    proof (rule frac_le)
      show "(2::rat) ^ a \<le> of_int p" using bp(2) by (metis of_int_le_iff of_int_numeral of_int_power)
      show "(of_int q :: rat) \<le> 2 ^ (b + 1)" using bq(3) by (metis less_imp_le of_int_le_iff of_int_numeral of_int_power)
      show "0 < (of_int q :: rat)" using q by simp
      show "0 \<le> (of_int p :: rat)" using p by simp
    qed
    finally show ?thesis using x by simp
  qed
  have hi: "x < (2::rat) powi (int a - int b + 1)"
  proof -
    have "of_int p / of_int q < (2::rat) ^ (a + 1) / 2 ^ b"
    proof (rule frac_less)
      show "(of_int p :: rat) < 2 ^ (a + 1)" using bp(3) by (metis of_int_less_iff of_int_numeral of_int_power)
      show "(2::rat) ^ b \<le> of_int q" using bq(2) by (metis of_int_le_iff of_int_numeral of_int_power)
      show "0 \<le> (of_int p :: rat)" using p by simp
      show "0 < (2::rat) ^ b" by simp
    qed
    also have "\<dots> = 2 powi (int a - int b + 1)"
      by (simp add: power_int_diff power_int_add)
    finally show ?thesis using x by simp
  qed
  show "2 powi (floor_log2 x) \<le> x"
    using lo by (simp add: floor_log2_def pq d Let_def)
  show "x < 2 powi (floor_log2 x + 1)"
    using hi by (auto simp add: floor_log2_def pq d Let_def not_le)
qed

lemma to_double_nonneg: "0 \<le> x \<Longrightarrow> 0 \<le> to_double x"
  unfolding to_double_def Let_def
  by (auto intro!: mult_nonneg_nonneg round_half_even_nonneg divide_nonneg_nonneg simp: sgn_if)

lemma to_double_error:
  assumes "0 \<le> x"
  shows "\<bar>to_double x - x\<bar> \<le> x / 2 ^ 53"
proof (cases "x = 0")
  case True
  then show ?thesis by (simp add: to_double_def)
next
  case False
  with assms have pos: "0 < x" by simp
  define u :: rat where "u = 2 powi (floor_log2 x - 52)"
  have u_pos: "0 < u" by (simp add: u_def)
  have td: "to_double x = of_int (round_half_even (x / u)) * u"
    using pos by (simp add: to_double_def Let_def u_def)
  have "to_double x - x = (of_int (round_half_even (x / u)) - x / u) * u"
    using u_pos by (simp add: td left_diff_distrib)
  then have "\<bar>to_double x - x\<bar> = \<bar>of_int (round_half_even (x / u)) - x / u\<bar> * u"
    using u_pos by (simp add: abs_mult)
  also have "\<dots> \<le> (1 / 2) * u"
    using round_half_even_error[of "x / u"] u_pos by (intro mult_right_mono) auto
  also have "u = 2 powi (floor_log2 x) / 2 ^ 52"
    by (simp add: u_def power_int_diff)
  also have "(1 / 2) * (2 powi (floor_log2 x) / 2 ^ 52) \<le> (1 / 2) * (x / 2 ^ 52)"
    using floor_log2_bounds(1)[OF pos] by (intro mult_left_mono divide_right_mono) auto
  finally show ?thesis by simp
qed

lemma percentage_product_error:
  assumes "0 \<le> q"
  shows "\<bar>js_mul (to_double q) 100 - 100 * q\<bar> \<le> 100 * q / 2 ^ 51"
proof -
  define x1 where "x1 = to_double q"
  have x1_nonneg: "0 \<le> x1" using assms by (simp add: x1_def to_double_nonneg)
  have e1: "\<bar>x1 - q\<bar> \<le> q / 2 ^ 53" unfolding x1_def by (rule to_double_error[OF assms])
  have "q / 2 ^ 53 \<le> q" using assms by (simp add: field_simps)
  with e1 have x1_le: "x1 \<le> 2 * q" by linarith
  have e2: "\<bar>to_double (x1 * 100) - x1 * 100\<bar> \<le> x1 * 100 / 2 ^ 53"
    by (rule to_double_error) (use x1_nonneg in simp)
  have e3: "\<bar>x1 * 100 - 100 * q\<bar> \<le> 100 * (q / 2 ^ 53)"
    using e1 by linarith
  have "\<bar>to_double (x1 * 100) - 100 * q\<bar> \<le> x1 * 100 / 2 ^ 53 + 100 * (q / 2 ^ 53)"
    using e2 e3 by linarith
  also have "\<dots> \<le> (2 * q) * 100 / 2 ^ 53 + 100 * (q / 2 ^ 53)"
    using x1_le by simp
  also have "\<dots> \<le> 100 * q / 2 ^ 51"
    using assms by simp
  finally show ?thesis by (simp add: js_mul_def x1_def)
qed

lemma nearest_integer_of_quotient:
  fixes r :: int and c t :: nat and x :: rat
  assumes t: "0 < t"
    and r: "of_int r \<le> x + 1 / 2" "x + 1 / 2 < of_int r + 1"
    and x: "\<bar>x - of_nat (k * c) / of_nat t\<bar> \<le> d"
    and d: "2 * of_nat t * d < 1"
  shows "\<bar>of_int r - of_nat (k * c) / (of_nat t :: rat)\<bar> \<le> 1 / 2"
proof -
  define v :: rat where "v = of_nat (k * c) / of_nat t"
  have tv: "2 * of_nat t * v = of_int (2 * int (k * c))"
    using t by (simp add: v_def)
  have tpos: "0 < (of_nat t :: rat)" using t by simp
  have lo: "of_int r - 1 / 2 - d \<le> v" and hi: "v < of_int r + 1 / 2 + d"
    using r x unfolding v_def[symmetric] by linarith+
  have "2 * of_nat t * (of_int r - 1 / 2) - 2 * of_nat t * d \<le> 2 * of_nat t * v"
    using mult_left_mono[OF lo, of "2 * of_nat t"] tpos by (simp add: algebra_simps)
  then have "(of_int (int t * (2 * r - 1)) :: rat) - 1 < of_int (2 * int (k * c))"
    using d unfolding tv by (simp add: algebra_simps)
  then have "(of_int (int t * (2 * r - 1) - 1) :: rat) < of_int (2 * int (k * c))"
    by simp
  then have i1: "int t * (2 * r - 1) \<le> 2 * int (k * c)"
    unfolding of_int_less_iff by linarith
  have "2 * of_nat t * v < 2 * of_nat t * (of_int r + 1 / 2) + 2 * of_nat t * d"
    using mult_strict_left_mono[OF hi, of "2 * of_nat t"] tpos by (simp add: algebra_simps)
  then have "(of_int (2 * int (k * c)) :: rat) < of_int (int t * (2 * r + 1)) + 1"
    using d unfolding tv by (simp add: algebra_simps)
  then have "(of_int (2 * int (k * c)) :: rat) < of_int (int t * (2 * r + 1) + 1)"
    by simp
  then have i2: "2 * int (k * c) \<le> int t * (2 * r + 1)"
    unfolding of_int_less_iff by linarith
  have "(of_int (int t * (2 * r - 1)) :: rat) \<le> of_int (2 * int (k * c))"
    using i1 by (simp only: of_int_le_iff)
  then have a1: "of_int r - 1 / 2 \<le> v"
    using tpos by (simp add: v_def field_simps)
  have "(of_int (2 * int (k * c)) :: rat) \<le> of_int (int t * (2 * r + 1))"
    using i2 by (simp only: of_int_le_iff)
  then have a2: "v \<le> of_int r + 1 / 2"
    using tpos by (simp add: v_def field_simps)
  show ?thesis using a1 a2 unfolding v_def[symmetric] by linarith
qed


section \<open>Completion percentage\<close>

lemma Math_round_bounds: "of_int (Math_round x) \<le> x + 1 / 2" "x + 1 / 2 < of_int (Math_round x) + 1"
  unfolding Math_round_def by linarith+

lemma percentage_nearest:
  assumes t: "totalTasks p \<noteq> 0" and c: "completedTasksCount p < 2 ^ 43"
  shows "\<bar>of_int (getCompletionPercentage p)
           - 100 * of_nat (completedTasksCount p) / (of_nat (totalTasks p) :: rat)\<bar> \<le> 1 / 2"
proof -
  define cn where "cn = completedTasksCount p"
  define tn where "tn = totalTasks p"
  define q :: rat where "q = of_nat cn / of_nat tn"
  define x where "x = js_mul (to_double q) 100"
  have tpos: "0 < tn" using t by (simp add: tn_def)
  have q0: "0 \<le> q" by (simp add: q_def)
  have gcp: "getCompletionPercentage p = Math_round x"
    using t by (simp add: getCompletionPercentage_def x_def q_def js_div_def cn_def tn_def)
  have v: "100 * q = of_nat (100 * cn) / of_nat tn" by (simp add: q_def)
  have err: "\<bar>x - of_nat (100 * cn) / of_nat tn\<bar> \<le> 100 * q / 2 ^ 51"
    using percentage_product_error[OF q0] unfolding x_def v .
  have "200 * cn < 2 ^ 8 * 2 ^ 43" using c unfolding cn_def by simp
  then have "200 * cn < 2 ^ 51" by simp
  then have "(of_nat (200 * cn) :: rat) < of_nat (2 ^ 51)" unfolding of_nat_less_iff .
  then have small: "200 * (of_nat cn :: rat) < 2 ^ 51" by simp
  have "2 * of_nat tn * (100 * q / 2 ^ 51) = 200 * (of_nat cn :: rat) / 2 ^ 51"
    using tpos by (simp add: q_def)
  also have "\<dots> < 1" using small by simp
  finally have d: "2 * of_nat tn * (100 * q / 2 ^ 51) < 1" .
  have "\<bar>of_int (Math_round x) - of_nat (100 * cn) / (of_nat tn :: rat)\<bar> \<le> 1 / 2"
    by (rule nearest_integer_of_quotient[OF tpos Math_round_bounds err d])
  then show ?thesis using gcp by (simp add: cn_def tn_def)
qed

lemma frac_half: "frac (of_int k + 1 / 2 :: rat) = 1 / 2"
  by (simp add: frac_unique_iff)

lemma nearest_is_round:
  fixes r :: int and v :: rat
  assumes "\<bar>of_int r - v\<bar> \<le> 1 / 2" "frac v \<noteq> 1 / 2"
  shows "r = round v"
proof -
  have "v \<noteq> of_int r + 1 / 2"
    using assms(2) frac_half[of r] by auto
  moreover have "v \<noteq> of_int (r - 1) + 1 / 2"
    using assms(2) frac_half[of "r - 1"] by metis
  ultimately have "of_int r \<le> v + 1 / 2" "v + 1 / 2 < of_int r + 1"
    using assms(1) by (simp_all, linarith+)
  then show ?thesis unfolding round_def by linarith
qed


text \<open>
  Claim C4, as the code has it. \<^verbatim>\<open>getCompletionPercentage()\<close> returns 0 when \<open>totalTasks\<close> is 0:
  the guard comes before the division. Otherwise it returns an integer nearest to
  \<open>100 * completedTasksCount / totalTasks\<close> (for counts below \<open>2\<^sup>4\<^sup>3\<close>); this is
  \<open>round (100 * completedTasksCount / totalTasks)\<close> unless the quotient lies exactly halfway
  between two integers, where the rounding of the double product decides which of the two
  is returned.
\<close>

theorem completion_percentage_nearest:
  "(totalTasks p = 0 \<longrightarrow> getCompletionPercentage p = 0) \<and>
   (totalTasks p \<noteq> 0 \<and> completedTasksCount p < 2 ^ 43 \<longrightarrow>
      \<bar>of_int (getCompletionPercentage p)
         - 100 * of_nat (completedTasksCount p) / (of_nat (totalTasks p) :: rat)\<bar> \<le> 1 / 2 \<and>
      (frac (100 * of_nat (completedTasksCount p) / (of_nat (totalTasks p) :: rat)) \<noteq> 1 / 2 \<longrightarrow>
         getCompletionPercentage p
           = round (100 * of_nat (completedTasksCount p) / (of_nat (totalTasks p) :: rat))))"
proof (intro conjI impI)
  show "getCompletionPercentage p = 0" if "totalTasks p = 0"
    using that by (simp add: getCompletionPercentage_def)
next
  assume a: "totalTasks p \<noteq> 0 \<and> completedTasksCount p < 2 ^ 43"
  then show near: "\<bar>of_int (getCompletionPercentage p)
         - 100 * of_nat (completedTasksCount p) / (of_nat (totalTasks p) :: rat)\<bar> \<le> 1 / 2"
    using percentage_nearest by blast
  assume "frac (100 * of_nat (completedTasksCount p) / (of_nat (totalTasks p) :: rat)) \<noteq> 1 / 2"
  with near show "getCompletionPercentage p
           = round (100 * of_nat (completedTasksCount p) / (of_nat (totalTasks p) :: rat))"
    by (rule nearest_is_round)
qed


theorem completion_percentage_nearest_witness:
  "totalTasks (newProgress 5 1 7) = 0 \<and> getCompletionPercentage (newProgress 5 1 7) = 0 \<and>
   totalTasks progress_1_of_4 \<noteq> 0 \<and> completedTasksCount progress_1_of_4 < 2 ^ 43 \<and>
   frac (100 * of_nat (completedTasksCount progress_1_of_4)
           / (of_nat (totalTasks progress_1_of_4) :: rat)) \<noteq> 1 / 2 \<and>
   getCompletionPercentage progress_1_of_4 = 25"
proof -
  have z: "totalTasks (newProgress 5 1 7) = 0"
    by (simp add: newProgress_def)
  have h: "totalTasks progress_1_of_4 \<noteq> 0 \<and> completedTasksCount progress_1_of_4 < 2 ^ 43"
    by (simp add: progress_1_of_4_def)
  have q: "100 * of_nat (completedTasksCount progress_1_of_4)
             / (of_nat (totalTasks progress_1_of_4) :: rat) = 25"
    by (simp add: progress_1_of_4_def)
  have f: "frac (25 :: rat) \<noteq> 1 / 2" "round (25 :: rat) = 25"
    by (simp_all add: frac_def)
  from completion_percentage_nearest[of "newProgress 5 1 7"] z
  have "getCompletionPercentage (newProgress 5 1 7) = 0" by blast
  moreover from completion_percentage_nearest[of progress_1_of_4] h f
  have "getCompletionPercentage progress_1_of_4 = 25" unfolding q by simp
  ultimately show ?thesis using z h f unfolding q by simp
qed

text \<open>
  Claim C4, as stated, fails with 23 of 40 tasks completed. The quotient 23 / 40 = 0.575 is
  no double; the nearest one is 0.57499999999999995559. Its product with 100 rounds to the
  double 57.49999999999999289, and \<^verbatim>\<open>Math.round\<close> of it is 57, whereas
  \<open>100 * 23 / 40 = 57.5\<close> rounds to 58.
\<close>

theorem completion_percentage_counterexample:
  "getCompletionPercentage progress_23_of_40 = 57 \<and>
   round (100 * of_nat (completedTasksCount progress_23_of_40)
            / (of_nat (totalTasks progress_23_of_40) :: rat)) = 58"
  by code_simp

section \<open>Properties of the collection operations\<close>

lemma find_SomeD: "find P xs = Some x \<Longrightarrow> x \<in> set xs \<and> P x"
  by (induction xs) (auto split: if_splits)

lemma find_None_iff': "find P xs = None \<longleftrightarrow> (\<forall>x \<in> set xs. \<not> P x)"
  by (induction xs) auto

lemma populateTasks_ids:
  "map task_id (populateTasks ts ids) = filter (\<lambda>i. \<exists>t \<in> set ts. task_id t = i) ids"
proof (induction ids)
  case Nil
  then show ?case by (simp add: populateTasks_def map_filter_simps)
next
  case (Cons i ids)
  show ?case
  proof (cases "find (\<lambda>t. task_id t = i) ts")
    case None
    then have "\<not> (\<exists>t \<in> set ts. task_id t = i)" by (simp add: find_None_iff')
    with None Cons show ?thesis by (simp add: populateTasks_def map_filter_simps)
  next
    case (Some t)
    then have "t \<in> set ts" "task_id t = i" using find_SomeD by fastforce+
    then have "task_id t = i" "\<exists>t \<in> set ts. task_id t = i" by blast+
    then show ?thesis using Some Cons by (simp add: populateTasks_def map_filter_simps)
  qed
qed

lemma length_populateTasks:
  "length (populateTasks ts ids) = length (filter (\<lambda>i. \<exists>t \<in> set ts. task_id t = i) ids)"
  using populateTasks_ids[of ts ids] by (metis length_map)

lemma concat_map_filter:
  "concat (map (\<lambda>x. filter Q (f x)) xs) = filter Q (concat (map f xs))"
  by (induction xs) simp_all

lemma allTasks_filter:
  "allTasks db courseId = filter (\<lambda>i. \<exists>t \<in> set (db_tasks db). task_id t = i) (courseTaskRefs db courseId)"
  unfolding allTasks_def courseTaskRefs_def populateTasks_ids by (rule concat_map_filter)

lemma set_allTasks: "set (allTasks db courseId) = reachableTasks db courseId"
  unfolding allTasks_filter courseTaskRefs_def reachableTasks_def by auto

lemma length_allTasks_card:
  assumes "distinct (courseTaskRefs db courseId)"
  shows "length (allTasks db courseId) = card (reachableTasks db courseId)"
proof -
  have "distinct (allTasks db courseId)"
    unfolding allTasks_filter using assms by (rule distinct_filter)
  then show ?thesis
    unfolding set_allTasks[symmetric] by (simp add: distinct_card)
qed

lemma find_updateFirst_same:
  "P y \<Longrightarrow> find P xs = Some x \<Longrightarrow> find P (updateFirst P (\<lambda>_. y) xs) = Some y"
  by (induction xs) (auto split: if_splits)

lemma find_append_new: "find P xs = None \<Longrightarrow> P y \<Longrightarrow> find P (xs @ [y]) = Some y"
  by (induction xs) (auto split: if_splits)

lemma findProgress_key:
  "findProgress u c db = Some p \<Longrightarrow> progress_user p = u \<and> progress_course p = c"
  unfolding findProgress_def by (drule find_SomeD) simp

lemma findProgress_saveProgress:
  assumes "progress_user p = u" "progress_course p = c"
  shows "findProgress u c (saveProgress (findProgress u c db) p db) = Some p"
proof (cases "findProgress u c db")
  case None
  then show ?thesis using assms
    by (simp add: saveProgress_def findProgress_def find_append_new)
next
  case (Some q)
  then show ?thesis using assms
    by (simp add: saveProgress_def findProgress_def find_updateFirst_same)
qed

lemma saveProgress_catalog [simp]:
  "db_skills (saveProgress found p db) = db_skills db"
  "db_tasks (saveProgress found p db) = db_tasks db"
  "db_courses (saveProgress found p db) = db_courses db"
  "db_students (saveProgress found p db) = db_students db"
  "db_badges (saveProgress found p db) = db_badges db"
  "db_users (saveProgress found p db) = db_users db"
  "db_groups (saveProgress found p db) = db_groups db"
  by (simp_all add: saveProgress_def split: option.splits)

lemma awardBadges_frame [simp]:
  "db_progress (fst (awardBadges caller db)) = db_progress db"
  "db_skills (fst (awardBadges caller db)) = db_skills db"
  "db_tasks (fst (awardBadges caller db)) = db_tasks db"
  "db_courses (fst (awardBadges caller db)) = db_courses db"
  "db_users (fst (awardBadges caller db)) = db_users db"
  "db_groups (fst (awardBadges caller db)) = db_groups db"
  "db_badges (fst (awardBadges caller db)) = db_badges db"
  by (simp_all add: awardBadges_def split: option.splits)

lemma allTasks_cong:
  "db_skills db' = db_skills db \<Longrightarrow> db_tasks db' = db_tasks db \<Longrightarrow> allTasks db' c = allTasks db c"
  by (simp add: allTasks_def)

lemma courseTaskRefs_cong:
  "db_skills db' = db_skills db \<Longrightarrow> courseTaskRefs db' c = courseTaskRefs db c"
  by (simp add: courseTaskRefs_def)

lemma reachableTasks_cong:
  "db_skills db' = db_skills db \<Longrightarrow> db_tasks db' = db_tasks db \<Longrightarrow> reachableTasks db' c = reachableTasks db c"
  by (simp add: reachableTasks_def)

lemma findProgress_cong:
  "db_progress db' = db_progress db \<Longrightarrow> findProgress u c db' = findProgress u c db"
  by (simp add: findProgress_def)

lemma markCompleted_key [simp]:
  "progress_user (markCompleted taskId courseId db p) = progress_user p"
  "progress_course (markCompleted taskId courseId db p) = progress_course p"
  by (simp_all add: markCompleted_def Let_def)

lemma markCompleted_counts:
  "completedTasksCount (markCompleted taskId courseId db p) = length (completedTasks (markCompleted taskId courseId db p))"
  "totalTasks (markCompleted taskId courseId db p) = length (allTasks db courseId)"
  "taskId \<in> set (completedTasks (markCompleted taskId courseId db p))"
  "distinct (completedTasks p) \<Longrightarrow> distinct (completedTasks (markCompleted taskId courseId db p))"
  by (simp_all add: markCompleted_def Let_def)

section \<open>Recomputation of the derived counts\<close>

lemma completeTask_unfold:
  "completeTask caller taskId courseId now db =
     (let found = findProgress (user_id caller) courseId db;
          saved = markCompleted taskId courseId db
                    (case found of None \<Rightarrow> newProgress (user_id caller) courseId now | Some p \<Rightarrow> p);
          db1 = saveProgress found saved db
      in (fst (awardBadges caller db1),
          \<lparr>response_progress = saved, newBadges = snd (awardBadges caller db1)\<rparr>))"
  by (simp add: completeTask_def Let_def split: prod.splits)

lemma completeTask_stored:
  assumes "completeTask caller taskId courseId now db = (db', r)"
  shows "findProgress (user_id caller) courseId db' = Some (response_progress r)"
    and "completedTasksCount (response_progress r) = length (completedTasks (response_progress r))"
    and "totalTasks (response_progress r) = length (allTasks db' courseId)"
    and "taskId \<in> set (completedTasks (response_progress r))"
    and "(case findProgress (user_id caller) courseId db of
            None \<Rightarrow> True | Some p \<Rightarrow> distinct (completedTasks p))
          \<Longrightarrow> distinct (completedTasks (response_progress r))"
proof -
  define found where "found = findProgress (user_id caller) courseId db"
  define start where "start = (case found of None \<Rightarrow> newProgress (user_id caller) courseId now | Some p \<Rightarrow> p)"
  define saved where "saved = markCompleted taskId courseId db start"
  define db1 where "db1 = saveProgress found saved db"
  have r: "response_progress r = saved" and db': "db' = fst (awardBadges caller db1)"
    using assms unfolding completeTask_unfold Let_def found_def start_def saved_def db1_def
    by auto
  have key: "progress_user start = user_id caller \<and> progress_course start = courseId"
    unfolding start_def using findProgress_key[of "user_id caller" courseId db]
    by (auto simp: found_def newProgress_def split: option.splits)
  have "findProgress (user_id caller) courseId db1 = Some saved"
    unfolding db1_def found_def
    by (rule findProgress_saveProgress) (simp_all add: saved_def key)
  then show "findProgress (user_id caller) courseId db' = Some (response_progress r)"
    unfolding r db' by (simp add: findProgress_def)
  show "completedTasksCount (response_progress r) = length (completedTasks (response_progress r))"
    unfolding r saved_def by (rule markCompleted_counts)
  have "allTasks db' courseId = allTasks db courseId"
    unfolding db' db1_def by (rule allTasks_cong) simp_all
  then show "totalTasks (response_progress r) = length (allTasks db' courseId)"
    unfolding r saved_def by (simp add: markCompleted_counts)
  show "taskId \<in> set (completedTasks (response_progress r))"
    unfolding r saved_def by (rule markCompleted_counts)
  assume "case findProgress (user_id caller) courseId db of
            None \<Rightarrow> True | Some p \<Rightarrow> distinct (completedTasks p)"
  then have "distinct (completedTasks start)"
    unfolding start_def found_def by (auto simp: newProgress_def split: option.splits)
  then show "distinct (completedTasks (response_progress r))"
    unfolding r saved_def by (rule markCompleted_counts)
qed

lemma getProgress_recount:
  assumes "findProgress (user_id caller) courseId db = Some p"
    and "getProgress caller courseId db = (db', r)"
  shows "response_completedTasksCount r = length (response_completedTasks r)"
    and "response_totalTasks r = length (allTasks db' courseId)"
    and "\<exists>p'. findProgress (user_id caller) courseId db' = Some p' \<and>
           completedTasksCount p' = response_completedTasksCount r \<and>
           totalTasks p' = response_totalTasks r \<and>
           completedTasks p' = completedTasks p"
    and "map task_id (response_completedTasks r) =
           filter (\<lambda>i. \<exists>t \<in> set (db_tasks db). task_id t = i) (completedTasks p)"
proof -
  define p2 where "p2 = p\<lparr>completedTasksCount := length (populateTasks (db_tasks db) (completedTasks p)),
                           totalTasks := length (allTasks db courseId)\<rparr>"
  have r: "r = ProgressJson p2 (populateTasks (db_tasks db) (completedTasks p))"
    and db': "db' = saveProgress (Some p) p2 db"
    using assms by (auto simp: getProgress_def Let_def p2_def)
  have key: "progress_user p2 = user_id caller" "progress_course p2 = courseId"
    using findProgress_key[OF assms(1)] by (simp_all add: p2_def)
  show "response_completedTasksCount r = length (response_completedTasks r)"
    by (simp add: r p2_def)
  have "allTasks db' courseId = allTasks db courseId"
    unfolding db' by (rule allTasks_cong) simp_all
  then show "response_totalTasks r = length (allTasks db' courseId)"
    by (simp add: r p2_def)
  have "findProgress (user_id caller) courseId (saveProgress (findProgress (user_id caller) courseId db) p2 db) = Some p2"
    by (rule findProgress_saveProgress) (rule key)+
  then have "findProgress (user_id caller) courseId db' = Some p2"
    unfolding db' assms(1) .
  then show "\<exists>p'. findProgress (user_id caller) courseId db' = Some p' \<and>
           completedTasksCount p' = response_completedTasksCount r \<and>
           totalTasks p' = response_totalTasks r \<and>
           completedTasks p' = completedTasks p"
    by (simp add: r p2_def)
  show "map task_id (response_completedTasks r) =
           filter (\<lambda>i. \<exists>t \<in> set (db_tasks db). task_id t = i) (completedTasks p)"
    by (simp add: r populateTasks_ids)
qed


text \<open>
  What the two recomputing handlers do. After \<open>completeTask\<close> the stored record of the caller and the
  course is the one in the response; its \<open>completedTasksCount\<close> is the length of
  \<open>completedTasks\<close>, which is the size of the set when the record listed no task twice
  before; its \<open>totalTasks\<close> is the number of task references of the course's skills that
  name an existing task, in the catalog as it is after the call, which is the number of
  reachable tasks when no reference occurs twice. A read by \<open>getProgress\<close>
  (GET /progress/:courseId) that finds a record recomputes both counts the same way,
  completed tasks being counted when they still exist, answers with them and stores them.
\<close>

lemma counts_recomputed_by_completeTask_and_getProgress:
  "(completeTask caller taskId courseId now db = (db', r) \<longrightarrow>
      findProgress (user_id caller) courseId db' = Some (response_progress r) \<and>
      completedTasksCount (response_progress r) = length (completedTasks (response_progress r)) \<and>
      totalTasks (response_progress r) = length (allTasks db' courseId) \<and>
      ((case findProgress (user_id caller) courseId db of
          None \<Rightarrow> True | Some p \<Rightarrow> distinct (completedTasks p)) \<longrightarrow>
         completedTasksCount (response_progress r) = card (set (completedTasks (response_progress r)))) \<and>
      (distinct (courseTaskRefs db' courseId) \<longrightarrow>
         totalTasks (response_progress r) = card (reachableTasks db' courseId)))
   \<and>
   (findProgress (user_id caller) courseId db = Some p \<and> getProgress caller courseId db = (db'', r') \<longrightarrow>
      response_completedTasksCount r' = length (response_completedTasks r') \<and>
      map task_id (response_completedTasks r') =
        filter (\<lambda>i. \<exists>t \<in> set (db_tasks db). task_id t = i) (completedTasks p) \<and>
      response_totalTasks r' = length (allTasks db'' courseId) \<and>
      (\<exists>p'. findProgress (user_id caller) courseId db'' = Some p' \<and>
            completedTasksCount p' = response_completedTasksCount r' \<and>
            totalTasks p' = response_totalTasks r'))"
proof (intro conjI impI)
  assume a: "completeTask caller taskId courseId now db = (db', r)"
  note s = completeTask_stored[OF a]
  show "findProgress (user_id caller) courseId db' = Some (response_progress r)" by (rule s)
  show "completedTasksCount (response_progress r) = length (completedTasks (response_progress r))" by (rule s)
  show "totalTasks (response_progress r) = length (allTasks db' courseId)" by (rule s)
  show "completedTasksCount (response_progress r) = card (set (completedTasks (response_progress r)))"
    if "case findProgress (user_id caller) courseId db of
          None \<Rightarrow> True | Some p \<Rightarrow> distinct (completedTasks p)"
    using s(5)[OF that] s(2) by (simp add: distinct_card)
  show "totalTasks (response_progress r) = card (reachableTasks db' courseId)"
    if "distinct (courseTaskRefs db' courseId)"
    using length_allTasks_card[OF that] s(3) by simp
next
  assume b: "findProgress (user_id caller) courseId db = Some p \<and> getProgress caller courseId db = (db'', r')"
  note g = getProgress_recount[OF conjunct1[OF b] conjunct2[OF b]]
  show "response_completedTasksCount r' = length (response_completedTasks r')" by (rule g)
  show "map task_id (response_completedTasks r') =
        filter (\<lambda>i. \<exists>t \<in> set (db_tasks db). task_id t = i) (completedTasks p)" by (rule g)
  show "response_totalTasks r' = length (allTasks db'' courseId)" by (rule g)
  show "\<exists>p'. findProgress (user_id caller) courseId db'' = Some p' \<and>
            completedTasksCount p' = response_completedTasksCount r' \<and>
            totalTasks p' = response_totalTasks r'"
    using g(3) by blast
qed

lemma counts_recomputed_example:
  "completeTask alice 1 1 8 working_db
     = (completed_db, \<lparr>response_progress = completed_progress, newBadges = []\<rparr>) \<and>
   findProgress (user_id alice) 1 working_db = Some working_progress \<and>
   distinct (completedTasks working_progress) \<and>
   distinct (courseTaskRefs completed_db 1) \<and>
   completedTasksCount completed_progress = card (set (completedTasks completed_progress)) \<and>
   totalTasks completed_progress = card (reachableTasks completed_db 1) \<and>
   findProgress (user_id alice) 1 deleted_db = Some completed_progress \<and>
   getProgress alice 1 deleted_db = (reread_db, ProgressJson reread_progress []) \<and>
   response_totalTasks (ProgressJson reread_progress []) = length (allTasks reread_db 1)"
proof -
  have c: "completeTask alice 1 1 8 working_db
             = (completed_db, \<lparr>response_progress = completed_progress, newBadges = []\<rparr>)"
    by code_simp
  have f: "findProgress (user_id alice) 1 working_db = Some working_progress"
    by code_simp
  have d: "distinct (completedTasks working_progress)" "distinct (courseTaskRefs completed_db 1)"
    by code_simp+
  have f2: "findProgress (user_id alice) 1 deleted_db = Some completed_progress"
    by code_simp
  have g: "getProgress alice 1 deleted_db = (reread_db, ProgressJson reread_progress [])"
    by code_simp
  note t = counts_recomputed_by_completeTask_and_getProgress
             [of alice 1 1 8 working_db completed_db
                 "\<lparr>response_progress = completed_progress, newBadges = []\<rparr>"
                 working_progress working_db NoProgress]
  note t2 = counts_recomputed_by_completeTask_and_getProgress
             [of alice 1 1 8 deleted_db deleted_db
                 "\<lparr>response_progress = completed_progress, newBadges = []\<rparr>"
                 completed_progress reread_db "ProgressJson reread_progress []"]
  from t c f d
  have "completedTasksCount completed_progress = card (set (completedTasks completed_progress))"
    and "totalTasks completed_progress = card (reachableTasks completed_db 1)"
    by simp_all
  moreover from t2 f2 g
  have "response_totalTasks (ProgressJson reread_progress []) = length (allTasks reread_db 1)"
    by blast
  ultimately show ?thesis using c f d f2 g by blast
qed

lemma studentProgress_stored_counts:
  assumes "studentProgress caller courseId studentId db = Inr (db', r)"
  shows "\<exists>p. findProgress studentId courseId db = Some p \<and>
           sp_completedTasks r = completedTasksCount p \<and> sp_totalTasks r = totalTasks p \<and>
           db' = db"
  using assms by (auto simp: studentProgress_def split: option.splits if_splits)

text \<open>
  Claim C1. \<open>completeTask\<close> recomputes both counts, and so does the read of
  GET /progress/:courseId (above). The coach's read of a student's progress
  (GET /courses/:id/student/:studentId/progress) does not: it answers with the counts as
  they are stored. After alice has completed task 1 and carol has deleted that task, the
  course has no task left and the completed task no longer exists, and carol is still told
  1 completed task of 1 (100 percent), the entry of the task coming back with no task;
  \<open>getProgress\<close> on the same database recomputes both counts to 0.
\<close>

theorem coach_read_returns_stored_counts:
  "completeTask alice 1 1 8 working_db
     = (completed_db, \<lparr>response_progress = completed_progress, newBadges = []\<rparr>) \<and>
   deleteTask carol 1 completed_db = Inr deleted_db \<and>
   length (allTasks deleted_db 1) = 0 \<and>
   populateTasks (db_tasks deleted_db) (completedTasks completed_progress) = [] \<and>
   studentProgress carol 1 5 deleted_db = Inr (deleted_db, stale_response) \<and>
   sp_completedTasks stale_response = 1 \<and>
   sp_totalTasks stale_response = 1 \<and>
   sp_completionPercentage stale_response = 100 \<and>
   map tp_task (sp_taskProgress stale_response) = [None] \<and>
   getProgress alice 1 deleted_db = (reread_db, ProgressJson reread_progress []) \<and>
   completedTasksCount reread_progress = 0 \<and>
   totalTasks reread_progress = 0"
  by code_simp

section \<open>Deleting tasks and skills\<close>

lemma set_deleteFirst_subset: "set (deleteFirst P xs) \<subseteq> set xs"
  by (induction xs) auto

lemma deleteFirst_distinct_key:
  "distinct (map k xs) \<Longrightarrow> \<forall>x \<in> set (deleteFirst (\<lambda>x. k x = i) xs). k x \<noteq> i"
proof (induction xs)
  case Nil
  then show ?case by simp
next
  case (Cons x xs)
  then show ?case by (auto simp: image_iff)
qed

lemma find_updateFirst_map:
  "(\<And>x. P (f x) = P x) \<Longrightarrow> find P (updateFirst P f xs) = map_option f (find P xs)"
  by (induction xs) auto

lemma deleteTask_effect:
  assumes "deleteTask caller taskId db = Inr db'"
  shows "db_progress db' = db_progress db"
    and "distinct (map task_id (db_tasks db)) \<Longrightarrow> \<forall>t \<in> set (db_tasks db'). task_id t \<noteq> taskId"
    and "set (db_tasks db') \<subseteq> set (db_tasks db)"
    and "\<And>task skill. find (\<lambda>t. task_id t = taskId) (db_tasks db) = Some task \<Longrightarrow>
           find (\<lambda>s. skill_id s = task_skill task) (db_skills db) = Some skill \<Longrightarrow>
           find (\<lambda>s. skill_id s = task_skill task) (db_skills db')
             = Some (skill\<lparr>skill_tasks := removeAll taskId (skill_tasks skill)\<rparr>)"
proof -
  obtain task where task: "find (\<lambda>t. task_id t = taskId) (db_tasks db) = Some task"
    using assms by (auto simp: deleteTask_def split: option.splits)
  then have tid: "task_id task = taskId" by (auto dest: find_SomeD)
  have tasks: "db_tasks db' = deleteFirst (\<lambda>t. task_id t = taskId) (db_tasks db)"
    and prog: "db_progress db' = db_progress db"
    using assms task tid
    by (auto simp: deleteTask_def Let_def split: option.splits if_splits)
  show "db_progress db' = db_progress db" by (rule prog)
  show "\<forall>t \<in> set (db_tasks db'). task_id t \<noteq> taskId" if "distinct (map task_id (db_tasks db))"
    unfolding tasks using that by (rule deleteFirst_distinct_key)
  show "set (db_tasks db') \<subseteq> set (db_tasks db)"
    unfolding tasks by (rule set_deleteFirst_subset)
  fix task2 skill
  assume t2: "find (\<lambda>t. task_id t = taskId) (db_tasks db) = Some task2"
    and sk: "find (\<lambda>s. skill_id s = task_skill task2) (db_skills db) = Some skill"
  have "db_skills db' =
          updateFirst (\<lambda>s. skill_id s = task_skill task2)
            (\<lambda>s. s\<lparr>skill_tasks := removeAll taskId (skill_tasks s)\<rparr>) (db_skills db)"
    using assms t2 sk
    by (auto simp: deleteTask_def Let_def split: option.splits if_splits)
  then show "find (\<lambda>s. skill_id s = task_skill task2) (db_skills db')
             = Some (skill\<lparr>skill_tasks := removeAll taskId (skill_tasks skill)\<rparr>)"
    using sk by (simp add: find_updateFirst_map)
qed

lemma deleteSkill_effect:
  assumes "deleteSkill caller skillId db = Inr db'"
  shows "db_progress db' = db_progress db"
    and "db_tasks db' = filter (\<lambda>t. task_skill t \<noteq> skillId) (db_tasks db)"
    and "distinct (map skill_id (db_skills db)) \<Longrightarrow> \<forall>s \<in> set (db_skills db'). skill_id s \<noteq> skillId"
proof -
  obtain skill where skill: "find (\<lambda>s. skill_id s = skillId) (db_skills db) = Some skill"
    using assms by (auto simp: deleteSkill_def split: option.splits)
  then have sid: "skill_id skill = skillId" by (auto dest: find_SomeD)
  have skills: "db_skills db' = deleteFirst (\<lambda>s. skill_id s = skillId) (db_skills db)"
    and prog: "db_progress db' = db_progress db"
    and tasks: "db_tasks db' = filter (\<lambda>t. task_skill t \<noteq> skillId) (db_tasks db)"
    using assms skill sid
    by (auto simp: deleteSkill_def deleteMany_def Let_def split: option.splits if_splits)
  show "db_progress db' = db_progress db" by (rule prog)
  show "db_tasks db' = filter (\<lambda>t. task_skill t \<noteq> skillId) (db_tasks db)" by (rule tasks)
  show "\<forall>s \<in> set (db_skills db'). skill_id s \<noteq> skillId" if "distinct (map skill_id (db_skills db))"
    unfolding skills using that by (rule deleteFirst_distinct_key)
qed

text \<open>
  Claim C2, as the code has it. A delete-task that succeeds removes the task from the task
  collection (no task with that id is left, ids being unique) and from the task list of its
  skill, and leaves every Progress record exactly as it was. A delete-skill that succeeds
  deletes the skill and the tasks that belong to it, and leaves every Progress record as it
  was. The handlers of the skill routes never touch the progress collection.
\<close>

theorem delete_task_keeps_progress_references:
  "(deleteTask caller taskId db = Inr db' \<longrightarrow>
      db_progress db' = db_progress db \<and>
      set (db_tasks db') \<subseteq> set (db_tasks db) \<and>
      (distinct (map task_id (db_tasks db)) \<longrightarrow> (\<forall>t \<in> set (db_tasks db'). task_id t \<noteq> taskId)) \<and>
      (\<forall>task skill. find (\<lambda>t. task_id t = taskId) (db_tasks db) = Some task \<and>
           find (\<lambda>s. skill_id s = task_skill task) (db_skills db) = Some skill \<longrightarrow>
           find (\<lambda>s. skill_id s = task_skill task) (db_skills db')
             = Some (skill\<lparr>skill_tasks := removeAll taskId (skill_tasks skill)\<rparr>)))
   \<and>
   (deleteSkill caller skillId db = Inr db'' \<longrightarrow>
      db_progress db'' = db_progress db \<and>
      db_tasks db'' = filter (\<lambda>t. task_skill t \<noteq> skillId) (db_tasks db) \<and>
      (distinct (map skill_id (db_skills db)) \<longrightarrow> (\<forall>s \<in> set (db_skills db''). skill_id s \<noteq> skillId)))"
  using deleteTask_effect[of caller taskId db db'] deleteSkill_effect[of caller skillId db db'']
  by blast

theorem delete_task_keeps_progress_references_witness:
  "deleteTask carol 1 completed_db = Inr deleted_db \<and>
   distinct (map task_id (db_tasks completed_db)) \<and>
   db_progress deleted_db = db_progress completed_db \<and>
   db_tasks deleted_db = [] \<and>
   deleteSkill carol 1 completed_db = Inr skill_deleted_db \<and>
   distinct (map skill_id (db_skills completed_db)) \<and>
   db_progress skill_deleted_db = db_progress completed_db \<and>
   db_skills skill_deleted_db = []"
proof -
  have a: "deleteTask carol 1 completed_db = Inr deleted_db"
    and b: "deleteSkill carol 1 completed_db = Inr skill_deleted_db"
    and d: "distinct (map task_id (db_tasks completed_db))" "distinct (map skill_id (db_skills completed_db))"
    and e: "db_tasks deleted_db = []" "db_skills skill_deleted_db = []"
    by code_simp+
  from delete_task_keeps_progress_references[of carol 1 completed_db deleted_db 1 skill_deleted_db] a b
  have "db_progress deleted_db = db_progress completed_db"
    and "db_progress skill_deleted_db = db_progress completed_db"
    by blast+
  then show ?thesis using a b d e by blast
qed

text \<open>
  Claim C2, as stated, fails: alice has completed task 1 and has a task-progress entry for
  it; after carol deletes the task, and just as well after she deletes its skill, alice's
  record still lists task 1 in \<open>completedTasks\<close> and in \<open>taskProgress\<close>.
\<close>

theorem delete_task_progress_counterexample:
  "deleteTask carol 1 completed_db = Inr deleted_db \<and>
   db_tasks deleted_db = [] \<and>
   db_progress deleted_db = [completed_progress] \<and>
   completedTasks completed_progress = [1] \<and>
   map tp_task (taskProgress completed_progress) = [1] \<and>
   deleteSkill carol 1 completed_db = Inr skill_deleted_db \<and>
   db_progress skill_deleted_db = [completed_progress]"
  by code_simp

section \<open>Deleting a course\<close>

lemma foldl_delete_tasks:
  "db_tasks (foldl (\<lambda>d skill. d\<lparr>db_tasks := deleteMany (\<lambda>t. task_skill t = skill_id skill) (db_tasks d)\<rparr>) db skills)
     = filter (\<lambda>t. \<forall>s \<in> set skills. task_skill t \<noteq> skill_id s) (db_tasks db)"
  by (induction skills arbitrary: db) (auto simp: deleteMany_def intro: filter_cong)

lemma foldl_delete_tasks_frame:
  "db_users (foldl (\<lambda>d skill. d\<lparr>db_tasks := deleteMany (\<lambda>t. task_skill t = skill_id skill) (db_tasks d)\<rparr>) db skills) = db_users db"
  "db_skills (foldl (\<lambda>d skill. d\<lparr>db_tasks := deleteMany (\<lambda>t. task_skill t = skill_id skill) (db_tasks d)\<rparr>) db skills) = db_skills db"
  "db_progress (foldl (\<lambda>d skill. d\<lparr>db_tasks := deleteMany (\<lambda>t. task_skill t = skill_id skill) (db_tasks d)\<rparr>) db skills) = db_progress db"
  "db_courses (foldl (\<lambda>d skill. d\<lparr>db_tasks := deleteMany (\<lambda>t. task_skill t = skill_id skill) (db_tasks d)\<rparr>) db skills) = db_courses db"
  by (induction skills arbitrary: db) auto

lemma deleteCourse_effect:
  assumes c: "find (\<lambda>c. course_id c = courseId) (db_courses db) = Some course"
    and o: "course_coach course = user_id caller"
  shows "\<exists>db'. deleteCourse caller courseId db = Inr db' \<and>
      db_users db' = map (\<lambda>u. u\<lparr>enrolledCourses := removeAll courseId (enrolledCourses u)\<rparr>) (db_users db) \<and>
      db_skills db' = filter (\<lambda>s. skill_course s \<noteq> courseId) (db_skills db) \<and>
      db_tasks db' = filter (\<lambda>t. \<forall>s \<in> set (db_skills db). skill_course s = courseId \<longrightarrow> task_skill t \<noteq> skill_id s) (db_tasks db) \<and>
      db_progress db' = filter (\<lambda>p. progress_course p \<noteq> courseId) (db_progress db) \<and>
      db_courses db' = deleteFirst (\<lambda>c. course_id c = courseId) (db_courses db)"
proof -
  have cid: "course_id course = courseId" using c by (auto dest: find_SomeD)
  define db' where "db' = (case deleteCourse caller courseId db of Inr d \<Rightarrow> d | Inl _ \<Rightarrow> db)"
  have d: "deleteCourse caller courseId db = Inr db'"
    using c o by (simp add: db'_def deleteCourse_def Let_def)
  have 1: "db_users db' = map (\<lambda>u. u\<lparr>enrolledCourses := removeAll courseId (enrolledCourses u)\<rparr>) (db_users db)"
    using c o cid by (simp add: db'_def deleteCourse_def Let_def foldl_delete_tasks_frame)
  have 2: "db_skills db' = filter (\<lambda>s. skill_course s \<noteq> courseId) (db_skills db)"
    using c o cid by (simp add: db'_def deleteCourse_def Let_def foldl_delete_tasks_frame, simp add: deleteMany_def)
  have 3: "db_tasks db' = filter (\<lambda>t. \<forall>s \<in> set (db_skills db). skill_course s = courseId \<longrightarrow> task_skill t \<noteq> skill_id s) (db_tasks db)"
    using c o cid by (simp add: db'_def deleteCourse_def Let_def foldl_delete_tasks, auto intro: filter_cong)
  have 4: "db_progress db' = filter (\<lambda>p. progress_course p \<noteq> courseId) (db_progress db)"
    using c o cid by (simp add: db'_def deleteCourse_def Let_def foldl_delete_tasks_frame, simp add: deleteMany_def)
  have 5: "db_courses db' = deleteFirst (\<lambda>c. course_id c = courseId) (db_courses db)"
    using c o cid by (simp add: db'_def deleteCourse_def Let_def foldl_delete_tasks_frame)
  show ?thesis using d 1 2 3 4 5 by blast
qed

text \<open>
  Claim C9. When the coach who owns a course deletes it, the handler succeeds, and in the
  database it leaves: no skill belongs to the course; no task belongs to a skill that
  belonged to the course (and, where the task lists of the skills agree with the tasks'
  own skill references, no task listed by such a skill is left); no user is enrolled in
  the course; no Progress record is for the course; and the course itself is gone, course
  ids being unique.
\<close>

theorem delete_course_cascade:
  "find (\<lambda>c. course_id c = courseId) (db_courses db) = Some course \<and>
   course_coach course = user_id caller \<longrightarrow>
   (\<exists>db'. deleteCourse caller courseId db = Inr db' \<and>
      (\<forall>s \<in> set (db_skills db'). skill_course s \<noteq> courseId) \<and>
      (\<forall>t \<in> set (db_tasks db'). \<forall>s \<in> set (db_skills db).
           skill_course s = courseId \<longrightarrow> task_skill t \<noteq> skill_id s) \<and>
      ((\<forall>s \<in> set (db_skills db). \<forall>t \<in> set (db_tasks db).
           task_id t \<in> set (skill_tasks s) \<longrightarrow> task_skill t = skill_id s) \<longrightarrow>
         (\<forall>t \<in> set (db_tasks db'). task_id t \<notin> set (courseTaskRefs db courseId))) \<and>
      (\<forall>u \<in> set (db_users db'). courseId \<notin> set (enrolledCourses u)) \<and>
      (\<forall>p \<in> set (db_progress db'). progress_course p \<noteq> courseId) \<and>
      (distinct (map course_id (db_courses db)) \<longrightarrow>
         (\<forall>c \<in> set (db_courses db'). course_id c \<noteq> courseId)))"
proof
  assume a: "find (\<lambda>c. course_id c = courseId) (db_courses db) = Some course \<and>
             course_coach course = user_id caller"
  from deleteCourse_effect[OF conjunct1[OF a] conjunct2[OF a]]
  obtain db' where d: "deleteCourse caller courseId db = Inr db'"
    and users: "db_users db' = map (\<lambda>u. u\<lparr>enrolledCourses := removeAll courseId (enrolledCourses u)\<rparr>) (db_users db)"
    and skills: "db_skills db' = filter (\<lambda>s. skill_course s \<noteq> courseId) (db_skills db)"
    and tasks: "db_tasks db' = filter (\<lambda>t. \<forall>s \<in> set (db_skills db). skill_course s = courseId \<longrightarrow> task_skill t \<noteq> skill_id s) (db_tasks db)"
    and progress: "db_progress db' = filter (\<lambda>p. progress_course p \<noteq> courseId) (db_progress db)"
    and courses: "db_courses db' = deleteFirst (\<lambda>c. course_id c = courseId) (db_courses db)"
    by blast
  have 1: "\<forall>s \<in> set (db_skills db'). skill_course s \<noteq> courseId"
    unfolding skills by simp
  have 2: "\<forall>t \<in> set (db_tasks db'). \<forall>s \<in> set (db_skills db).
           skill_course s = courseId \<longrightarrow> task_skill t \<noteq> skill_id s"
    unfolding tasks by simp
  have 3: "\<forall>t \<in> set (db_tasks db'). task_id t \<notin> set (courseTaskRefs db courseId)"
    if "\<forall>s \<in> set (db_skills db). \<forall>t \<in> set (db_tasks db).
           task_id t \<in> set (skill_tasks s) \<longrightarrow> task_skill t = skill_id s"
    using that unfolding tasks courseTaskRefs_def by auto
  have 4: "\<forall>u \<in> set (db_users db'). courseId \<notin> set (enrolledCourses u)"
    unfolding users by auto
  have 5: "\<forall>p \<in> set (db_progress db'). progress_course p \<noteq> courseId"
    unfolding progress by simp
  have 6: "\<forall>c \<in> set (db_courses db'). course_id c \<noteq> courseId"
    if "distinct (map course_id (db_courses db))"
    unfolding courses using that by (rule deleteFirst_distinct_key)
  show "\<exists>db'. deleteCourse caller courseId db = Inr db' \<and>
      (\<forall>s \<in> set (db_skills db'). skill_course s \<noteq> courseId) \<and>
      (\<forall>t \<in> set (db_tasks db'). \<forall>s \<in> set (db_skills db).
           skill_course s = courseId \<longrightarrow> task_skill t \<noteq> skill_id s) \<and>
      ((\<forall>s \<in> set (db_skills db). \<forall>t \<in> set (db_tasks db).
           task_id t \<in> set (skill_tasks s) \<longrightarrow> task_skill t = skill_id s) \<longrightarrow>
         (\<forall>t \<in> set (db_tasks db'). task_id t \<notin> set (courseTaskRefs db courseId))) \<and>
      (\<forall>u \<in> set (db_users db'). courseId \<notin> set (enrolledCourses u)) \<and>
      (\<forall>p \<in> set (db_progress db'). progress_course p \<noteq> courseId) \<and>
      (distinct (map course_id (db_courses db)) \<longrightarrow>
         (\<forall>c \<in> set (db_courses db'). course_id c \<noteq> courseId))"
    using d 1 2 3 4 5 6 by blast
qed

theorem delete_course_cascade_witness:
  "find (\<lambda>c. course_id c = 1) (db_courses completed_db)
     = Some course_1 \<and>
   course_coach course_1
     = user_id carol \<and>
   distinct (map course_id (db_courses completed_db)) \<and>
   deleteCourse carol 1 completed_db = Inr course_deleted_db \<and>
   db_skills course_deleted_db = [] \<and> db_tasks course_deleted_db = [] \<and>
   db_progress course_deleted_db = [] \<and> db_courses course_deleted_db = [] \<and>
   map enrolledCourses (db_users course_deleted_db) = [[], []]"
proof -
  have f: "find (\<lambda>c. course_id c = 1) (db_courses completed_db)
     = Some course_1"
    and o: "course_coach course_1
     = user_id carol"
    and d: "distinct (map course_id (db_courses completed_db))"
    and e: "deleteCourse carol 1 completed_db = Inr course_deleted_db"
    and r: "db_skills course_deleted_db = []" "db_tasks course_deleted_db = []"
       "db_progress course_deleted_db = []" "db_courses course_deleted_db = []"
       "map enrolledCourses (db_users course_deleted_db) = [[], []]"
    by code_simp+
  from delete_course_cascade[of 1 completed_db
         course_1 carol] f o
  have "\<exists>db'. deleteCourse carol 1 completed_db = Inr db' \<and>
          (\<forall>p \<in> set (db_progress db'). progress_course p \<noteq> 1)"
    by blast
  with e have "\<forall>p \<in> set (db_progress course_deleted_db). progress_course p \<noteq> 1" by simp
  then show ?thesis using f o d e r by blast
qed

section \<open>Group membership\<close>

lemma creator_cannot_leave:
  "find (\<lambda>g. group_id g = groupId) (db_groups db) = Some grp \<Longrightarrow> creator grp = user_id caller
     \<Longrightarrow> leaveGroup caller groupId db = Inl Forbidden"
  by (simp add: leaveGroup_def)

lemma leaveGroup_keeps_creator:
  assumes "leaveGroup caller groupId db = Inr db'"
    and "find (\<lambda>g. group_id g = groupId) (db_groups db) = Some grp"
    and "creator grp \<in> set (members grp)"
  shows "find (\<lambda>g. group_id g = groupId) (db_groups db')
           = Some (grp\<lparr>members := filter (\<lambda>m. m \<noteq> user_id caller) (members grp)\<rparr>)"
    and "creator grp \<in> set (filter (\<lambda>m. m \<noteq> user_id caller) (members grp))"
proof -
  have gid: "group_id grp = groupId" using assms(2) by (auto dest: find_SomeD)
  have ne: "creator grp \<noteq> user_id caller"
    using assms(1,2) by (auto simp: leaveGroup_def split: if_splits)
  have "db' = saveGroup (grp\<lparr>members := filter (\<lambda>m. m \<noteq> user_id caller) (members grp)\<rparr>) db"
    using assms(1,2) by (auto simp: leaveGroup_def split: if_splits)
  then show "find (\<lambda>g. group_id g = groupId) (db_groups db')
           = Some (grp\<lparr>members := filter (\<lambda>m. m \<noteq> user_id caller) (members grp)\<rparr>)"
    using assms(2) gid by (simp add: saveGroup_def find_updateFirst_same)
  show "creator grp \<in> set (filter (\<lambda>m. m \<noteq> user_id caller) (members grp))"
    using assms(3) ne by simp
qed

text \<open>
  Claim C8 does not hold of remove-member. The leave handler refuses the creator (403), and
  a leave that succeeds keeps the creator among the members. The remove-member handler has
  no such check: the coach, and the creator too, can name the creator as the member to
  remove, and the creator is filtered out of \<open>members\<close>.
\<close>

theorem remove_member_removes_creator:
  "removeMember carol 1 5 groups_db
     = Inr (groups_db\<lparr>db_groups := [study_group\<lparr>members := [6]\<rparr>]\<rparr>) \<and>
   creator study_group = 5 \<and> members study_group = [5, 6] \<and>
   removeMember alice 1 5 groups_db
     = Inr (groups_db\<lparr>db_groups := [study_group\<lparr>members := [6]\<rparr>]\<rparr>) \<and>
   leaveGroup alice 1 groups_db = Inl Forbidden"
  by code_simp


section \<open>Submitting a task\<close>

lemma submitTask_no_files: "submitTask caller taskId courseId [] now db = Inl BadRequest"
  by (simp add: submitTask_def)

lemma recordSubmission_existing:
  assumes "find (\<lambda>tp. tp_task tp = taskId) (taskProgress p) = Some e"
  shows "find (\<lambda>tp. tp_task tp = taskId) (taskProgress (recordSubmission taskId files now p))
           = Some (e\<lparr>studentUploads := studentUploads e @ map (toUpload now) files,
                     submittedForReview := True, submittedAt := Some now\<rparr>)"
    and "completedTasks (recordSubmission taskId files now p) = completedTasks p"
  using assms by (simp_all add: recordSubmission_def find_updateFirst_map)

lemma recordSubmission_new:
  assumes "find (\<lambda>tp. tp_task tp = taskId) (taskProgress p) = None"
  shows "find (\<lambda>tp. tp_task tp = taskId) (taskProgress (recordSubmission taskId files now p))
           = Some (newTaskProgress taskId)"
  using assms by (simp add: recordSubmission_def find_append_new newTaskProgress_def)

text \<open>
  Claim C6 does not hold of a first submission. An empty file list is refused (400), and
  with an existing task-progress entry the files are appended and the entry is marked as
  submitted, \<open>completedTasks\<close> being left alone. Without an entry, the stored entry is the
  one cast from \<^verbatim>\<open>{ task, studentUploads: [] }\<close>: it has no upload and is not marked as
  submitted.
\<close>

theorem first_submission_stores_no_upload:
  "submitTask alice 1 1 [report_file] 7 catalog_db = Inr (first_submission_db, first_submission_progress) \<and>
   taskProgress first_submission_progress = [newTaskProgress 1] \<and>
   studentUploads (newTaskProgress 1) = [] \<and>
   submittedForReview (newTaskProgress 1) = False \<and>
   submittedAt (newTaskProgress 1) = None"
  by code_simp

section \<open>Reading without a record\<close>

lemma findProgress_None_iff:
  "findProgress u c db = None \<longleftrightarrow> (u, c) \<notin> progressKeys db"
  unfolding findProgress_def progressKeys_def find_None_iff' by force

lemma set_updateFirst_keys:
  "(\<And>x. P x \<Longrightarrow> k (f x) = k x) \<Longrightarrow> map k (updateFirst P f xs) = map k xs"
  by (induction xs) auto

lemma saveProgress_Some_keys:
  assumes "findProgress u c db = Some q" "progress_user p = u" "progress_course p = c"
  shows "progressKeys (saveProgress (Some q) p db) = progressKeys db"
proof -
  have "map (\<lambda>p. (progress_user p, progress_course p))
          (updateFirst (\<lambda>q. progress_user q = u \<and> progress_course q = c) (\<lambda>_. p) (db_progress db))
        = map (\<lambda>p. (progress_user p, progress_course p)) (db_progress db)"
    by (rule set_updateFirst_keys) (simp add: assms)
  then show ?thesis by (simp add: progressKeys_def saveProgress_def assms)
qed

lemma getProgress_absent:
  "findProgress (user_id caller) courseId db = None \<Longrightarrow> getProgress caller courseId db = (db, NoProgress)"
  by (simp add: getProgress_def)

lemma getProgress_keys: "progressKeys (fst (getProgress caller courseId db)) = progressKeys db"
proof (cases "findProgress (user_id caller) courseId db")
  case None
  then show ?thesis by (simp add: getProgress_def)
next
  case (Some p)
  have "progressKeys (saveProgress (Some p)
          (p\<lparr>completedTasksCount := length (populateTasks (db_tasks db) (completedTasks p)),
             totalTasks := length (allTasks db courseId)\<rparr>) db) = progressKeys db"
    using findProgress_key[OF Some] by (intro saveProgress_Some_keys[OF Some]) simp_all
  then show ?thesis using Some by (simp add: getProgress_def Let_def)
qed

lemma completeTask_absent:
  assumes "findProgress (user_id caller) courseId db = None"
  shows "db_progress (fst (completeTask caller taskId courseId now db))
           = db_progress db @ [response_progress (snd (completeTask caller taskId courseId now db))]"
  using assms by (simp add: completeTask_unfold Let_def saveProgress_def)

lemma submitTask_absent:
  assumes "findProgress (user_id caller) courseId db = None" "files \<noteq> []"
  shows "\<exists>p. submitTask caller taskId courseId files now db
               = Inr (db\<lparr>db_progress := db_progress db @ [p]\<rparr>, p) \<and>
             progress_user p = user_id caller \<and> progress_course p = courseId"
  using assms by (simp add: submitTask_def Let_def saveProgress_def recordSubmission_def newProgress_def)

lemma rateTask_keys:
  assumes "rateTask caller courseId studentId taskId rating feedback now db = Inr (db', e)"
  shows "progressKeys db' = progressKeys db"
proof -
  obtain p where p: "findProgress studentId courseId db = Some p"
    using assms by (auto simp: rateTask_def split: option.splits if_splits)
  obtain p2 where "db' = saveProgress (Some p) p2 db" "progress_user p2 = progress_user p"
      "progress_course p2 = progress_course p"
    using assms p by (auto simp: rateTask_def Let_def split: option.splits if_splits)
  then show ?thesis
    using saveProgress_Some_keys[OF p, of p2] findProgress_key[OF p] by simp
qed

lemma studentProgress_db:
  "studentProgress caller courseId studentId db = Inr (db', r) \<Longrightarrow> db' = db"
  by (auto simp: studentProgress_def split: option.splits if_splits)

lemma deleteCourse_keys:
  assumes "deleteCourse caller courseId db = Inr db'"
  shows "progressKeys db' \<subseteq> progressKeys db"
proof -
  obtain course where c: "find (\<lambda>c. course_id c = courseId) (db_courses db) = Some course"
    and o: "course_coach course = user_id caller"
    using assms by (auto simp: deleteCourse_def split: option.splits if_splits)
  from deleteCourse_effect[OF c o] assms
  have "db_progress db' = filter (\<lambda>p. progress_course p \<noteq> courseId) (db_progress db)" by auto
  then show ?thesis by (auto simp: progressKeys_def)
qed

lemma group_routes_progress:
  "removeMember caller groupId memberId db = Inr db' \<Longrightarrow> db_progress db' = db_progress db"
  "leaveGroup caller groupId db = Inr db' \<Longrightarrow> db_progress db' = db_progress db"
  by (auto simp: removeMember_def leaveGroup_def saveGroup_def split: option.splits if_splits)

text \<open>
  Claim C10. When the caller has no Progress record for the course, \<open>getProgress\<close> answers
  with the empty result (no completed task, both counts 0) and returns the database as it
  was. \<open>completeTask\<close> and \<open>submitTask\<close> (with a file) are the handlers that insert the
  missing record. No other handler adds a record: \<open>getProgress\<close>, \<open>rateTask\<close>, the coach's
  read, the three deletions and the group routes leave the set of (user, course) pairs that
  have a record unchanged or smaller.
\<close>

theorem read_without_record_creates_nothing:
  "(findProgress (user_id caller) courseId db = None \<longrightarrow>
      getProgress caller courseId db = (db, NoProgress) \<and>
      response_completedTasks NoProgress = [] \<and>
      response_completedTasksCount NoProgress = 0 \<and>
      response_totalTasks NoProgress = 0 \<and>
      db_progress (fst (completeTask caller taskId courseId now db))
        = db_progress db @ [response_progress (snd (completeTask caller taskId courseId now db))] \<and>
      (files \<noteq> [] \<longrightarrow>
         (\<exists>p. submitTask caller taskId courseId files now db
                 = Inr (db\<lparr>db_progress := db_progress db @ [p]\<rparr>, p) \<and>
              progress_user p = user_id caller \<and> progress_course p = courseId)))
   \<and> progressKeys (fst (getProgress caller2 courseId2 db)) = progressKeys db
   \<and> (rateTask caller2 courseId2 studentId taskId2 rating feedback now2 db = Inr (db1, e) \<longrightarrow>
        progressKeys db1 = progressKeys db)
   \<and> (studentProgress caller2 courseId2 studentId db = Inr (db2, r) \<longrightarrow> db2 = db)
   \<and> (deleteTask caller2 taskId2 db = Inr db3 \<longrightarrow> db_progress db3 = db_progress db)
   \<and> (deleteSkill caller2 skillId db = Inr db4 \<longrightarrow> db_progress db4 = db_progress db)
   \<and> (deleteCourse caller2 courseId2 db = Inr db5 \<longrightarrow> progressKeys db5 \<subseteq> progressKeys db)
   \<and> (removeMember caller2 groupId memberId db = Inr db6 \<longrightarrow> db_progress db6 = db_progress db)
   \<and> (leaveGroup caller2 groupId db = Inr db7 \<longrightarrow> db_progress db7 = db_progress db)"
proof (intro conjI impI)
  assume a: "findProgress (user_id caller) courseId db = None"
  show "getProgress caller courseId db = (db, NoProgress)" using a by (rule getProgress_absent)
  show "db_progress (fst (completeTask caller taskId courseId now db))
        = db_progress db @ [response_progress (snd (completeTask caller taskId courseId now db))]"
    using a by (rule completeTask_absent)
  show "\<exists>p. submitTask caller taskId courseId files now db
                 = Inr (db\<lparr>db_progress := db_progress db @ [p]\<rparr>, p) \<and>
              progress_user p = user_id caller \<and> progress_course p = courseId"
    if "files \<noteq> []" using a that by (rule submitTask_absent)
next
  show "progressKeys (fst (getProgress caller2 courseId2 db)) = progressKeys db"
    by (rule getProgress_keys)
  show "progressKeys db1 = progressKeys db"
    if "rateTask caller2 courseId2 studentId taskId2 rating feedback now2 db = Inr (db1, e)"
    using that by (rule rateTask_keys)
  show "db2 = db" if "studentProgress caller2 courseId2 studentId db = Inr (db2, r)"
    using that by (rule studentProgress_db)
  show "db_progress db3 = db_progress db" if "deleteTask caller2 taskId2 db = Inr db3"
    using that by (rule deleteTask_effect)
  show "db_progress db4 = db_progress db" if "deleteSkill caller2 skillId db = Inr db4"
    using that by (rule deleteSkill_effect)
  show "progressKeys db5 \<subseteq> progressKeys db" if "deleteCourse caller2 courseId2 db = Inr db5"
    using that by (rule deleteCourse_keys)
  show "db_progress db6 = db_progress db" if "removeMember caller2 groupId memberId db = Inr db6"
    using that by (rule group_routes_progress)
  show "db_progress db7 = db_progress db" if "leaveGroup caller2 groupId db = Inr db7"
    using that by (rule group_routes_progress)
qed simp_all

theorem read_without_record_witness:
  "findProgress (user_id alice) 1 bob_db = None \<and>
   getProgress alice 1 bob_db = (bob_db, NoProgress) \<and>
   [report_file] \<noteq> [] \<and>
   length (db_progress (fst (completeTask alice 1 1 8 bob_db))) = 2 \<and>
   isl (submitTask alice 1 1 [report_file] 7 bob_db) = False \<and>
   isl (rateTask carol 1 6 1 (Number (Finite 4)) None 9 bob_db) = False \<and>
   isl (studentProgress carol 1 6 bob_db) = False \<and>
   isl (deleteTask carol 1 bob_db) = False \<and>
   isl (deleteSkill carol 1 bob_db) = False \<and>
   isl (deleteCourse carol 1 bob_db) = False \<and>
   isl (removeMember carol 1 6 bob_db) = False \<and>
   isl (leaveGroup bob 1 bob_db) = False \<and>
   db_progress (projr (deleteTask carol 1 bob_db)) = db_progress bob_db \<and>
   db_progress (projr (leaveGroup bob 1 bob_db)) = db_progress bob_db"
proof -
  have a: "findProgress (user_id alice) 1 bob_db = None"
    and f: "[report_file] \<noteq> []"
    and l: "length (db_progress (fst (completeTask alice 1 1 8 bob_db))) = 2"
    and s: "isl (submitTask alice 1 1 [report_file] 7 bob_db) = False"
       "isl (rateTask carol 1 6 1 (Number (Finite 4)) None 9 bob_db) = False"
       "isl (studentProgress carol 1 6 bob_db) = False"
       "isl (deleteTask carol 1 bob_db) = False"
       "isl (deleteSkill carol 1 bob_db) = False"
       "isl (deleteCourse carol 1 bob_db) = False"
       "isl (removeMember carol 1 6 bob_db) = False"
       "isl (leaveGroup bob 1 bob_db) = False"
    by code_simp+
  have dt: "deleteTask carol 1 bob_db = Inr (projr (deleteTask carol 1 bob_db))"
    and lg: "leaveGroup bob 1 bob_db = Inr (projr (leaveGroup bob 1 bob_db))"
    using s by (simp_all add: sum.collapse(2))
  note t = read_without_record_creates_nothing
     [of alice 1 bob_db 1 8 "[report_file]" carol 1 6 1 "Number (Finite 4)" None 9 bob_db rated_entry
         bob_db stale_response "projr (deleteTask carol 1 bob_db)" 1 bob_db bob_db 1 6 bob_db
         bob_db]
  note u = read_without_record_creates_nothing
     [of alice 1 bob_db 1 8 "[report_file]" bob 1 6 1 "Number (Finite 4)" None 9 bob_db rated_entry
         bob_db stale_response bob_db 1 bob_db bob_db 1 6 bob_db
         "projr (leaveGroup bob 1 bob_db)"]
  from t a have 1: "getProgress alice 1 bob_db = (bob_db, NoProgress)" by blast
  from t dt have 2: "db_progress (projr (deleteTask carol 1 bob_db)) = db_progress bob_db" by blast
  from u lg have 3: "db_progress (projr (leaveGroup bob 1 bob_db)) = db_progress bob_db" by blast
  show ?thesis using a f l s 1 2 3 by blast
qed

section \<open>Rating a task\<close>

lemma findIndex_None_iff: "findIndex P xs = None \<longleftrightarrow> (\<forall>x \<in> set xs. \<not> P x)"
  by (induction xs) auto

lemma findIndex_SomeD:
  "findIndex P xs = Some i \<Longrightarrow> i < length xs \<and> P (xs ! i) \<and> (\<forall>j < i. \<not> P (xs ! j))"
proof (induction xs arbitrary: i)
  case Nil
  then show ?case by simp
next
  case (Cons x xs)
  show ?case
  proof (cases "P x")
    case True
    with Cons.prems show ?thesis by simp
  next
    case False
    with Cons.prems obtain k where k: "findIndex P xs = Some k" "i = Suc k" by auto
    from Cons.IH[OF k(1)] False k(2) show ?thesis
      by (auto simp: nth_Cons split: nat.splits)
  qed
qed

lemma getAverageRating_cong:
  "taskProgress p' = taskProgress p \<Longrightarrow> getAverageRating p' = getAverageRating p"
  by (simp add: getAverageRating_def)

lemma rateTask_invalid:
  assumes "\<not> ToBoolean rating \<or> js_less (ToNumber rating) (Finite 1)
             \<or> js_less (Finite 5) (ToNumber rating)"
  shows "rateTask caller courseId studentId taskId rating feedback now db = Inl BadRequest"
  using assms by (simp add: rateTask_def)

lemma rating_outside:
  assumes "\<not> ToBoolean rating \<or> ToNumber rating = NegInfinity \<or> ToNumber rating = PosInfinity \<or>
           (\<exists>r. ToNumber rating = Finite r \<and> (r < 1 \<or> 5 < r))"
  shows "\<not> ToBoolean rating \<or> js_less (ToNumber rating) (Finite 1)
           \<or> js_less (Finite 5) (ToNumber rating)"
  using assms by auto

lemma rating_inside:
  assumes "ToBoolean rating" "ToNumber rating = Finite r" "1 \<le> r" "r \<le> 5"
  shows "\<not> (\<not> ToBoolean rating \<or> js_less (ToNumber rating) (Finite 1)
           \<or> js_less (Finite 5) (ToNumber rating))"
  using assms by auto

lemma rating_stored:
  assumes "ToBoolean rating" "ToNumber rating = Finite r" "1 \<le> r" "r \<le> 5"
    and "rating = Number n \<or> rating = String s"
  shows "validRating (castNumber rating) = Some (Some r)"
  using assms by auto

lemma rateTask_no_course:
  assumes "ToBoolean rating" "ToNumber rating = Finite r" "1 \<le> r" "r \<le> 5"
    and "find (\<lambda>c. course_id c = courseId) (db_courses db) = None"
  shows "rateTask caller courseId studentId taskId rating feedback now db = Inl NotFound"
  using rating_inside[OF assms(1-4)] assms(5) by (simp add: rateTask_def)

lemma rateTask_not_owner:
  assumes "ToBoolean rating" "ToNumber rating = Finite r" "1 \<le> r" "r \<le> 5"
    and "find (\<lambda>c. course_id c = courseId) (db_courses db) = Some course"
    and "course_coach course \<noteq> user_id caller"
  shows "rateTask caller courseId studentId taskId rating feedback now db = Inl NotAuthorized"
  using rating_inside[OF assms(1-4)] assms(5,6) by (simp add: rateTask_def)

lemma rateTask_not_found:
  assumes "ToBoolean rating" "ToNumber rating = Finite r" "1 \<le> r" "r \<le> 5"
    and "find (\<lambda>c. course_id c = courseId) (db_courses db) = Some course"
    and "course_coach course = user_id caller"
    and "findProgress studentId courseId db = None \<or>
         (\<exists>p. findProgress studentId courseId db = Some p \<and> (\<forall>tp \<in> set (taskProgress p). tp_task tp \<noteq> taskId))"
  shows "rateTask caller courseId studentId taskId rating feedback now db = Inl NotFound"
  using rating_inside[OF assms(1-4)] assms(5-7)
  by (auto simp: rateTask_def findIndex_None_iff[symmetric])

lemma rateTask_success:
  fixes feedback :: "string option" and now :: date
  assumes "ToBoolean rating" "ToNumber rating = Finite r" "1 \<le> r" "r \<le> 5"
    and v: "validRating (castNumber rating) = Some (Some r)"
    and c: "find (\<lambda>c. course_id c = courseId) (db_courses db) = Some course"
    and o: "course_coach course = user_id caller"
    and p: "findProgress studentId courseId db = Some p"
    and i: "findIndex (\<lambda>tp. tp_task tp = taskId) (taskProgress p) = Some i"
  defines "entry \<equiv> (taskProgress p ! i)\<lparr>coachRating := Some r,
                      coachFeedback := (case feedback of None \<Rightarrow> [] | Some f \<Rightarrow> f),
                      coachRatedAt := Some now, submittedForReview := False\<rparr>"
  shows "\<exists>db' p'. rateTask caller courseId studentId taskId rating feedback now db = Inr (db', entry) \<and>
           findProgress studentId courseId db' = Some p' \<and>
           taskProgress p' = (taskProgress p)[i := entry] \<and>
           averageRating p' = getAverageRating p' \<and>
           completedTasks p' = completedTasks p"
proof -
  define p1 where "p1 = p\<lparr>taskProgress := (taskProgress p)[i := entry]\<rparr>"
  define p2 where "p2 = p1\<lparr>averageRating := getAverageRating p1\<rparr>"
  have res: "rateTask caller courseId studentId taskId rating feedback now db
          = Inr (saveProgress (Some p) p2 db, entry)"
    using rating_inside[OF assms(1-4)] v c o p i unfolding rateTask_def p2_def p1_def entry_def
    by (simp add: Let_def)
  have key: "progress_user p2 = studentId" "progress_course p2 = courseId"
    using findProgress_key[OF p] by (simp_all add: p2_def p1_def)
  have "findProgress studentId courseId (saveProgress (findProgress studentId courseId db) p2 db) = Some p2"
    by (rule findProgress_saveProgress) (rule key)+
  then have f: "findProgress studentId courseId (saveProgress (Some p) p2 db) = Some p2"
    unfolding p .
  have "getAverageRating p2 = getAverageRating p1"
    by (rule getAverageRating_cong) (simp add: p2_def)
  then have avg: "averageRating p2 = getAverageRating p2" by (simp add: p2_def)
  show ?thesis
    using res f avg by (intro exI[of _ "saveProgress (Some p) p2 db"] exI[of _ p2]) (simp add: p2_def p1_def)
qed

text \<open>A rating that is stored lies between 1 and 5.\<close>

lemma rateTask_stores_rating_in_range:
  assumes "rateTask caller courseId studentId taskId rating feedback now db = Inr (db', e)"
  shows "\<exists>r. coachRating e = Some r \<and> 1 \<le> r \<and> r \<le> 5"
proof -
  have t: "ToBoolean rating"
    using assms by (auto simp: rateTask_def split: if_splits)
  obtain v where v: "validRating (castNumber rating) = Some v" and e: "coachRating e = v"
    using assms by (auto simp: rateTask_def Let_def split: if_splits option.splits)
  have "\<exists>r. v = Some r \<and> 1 \<le> r \<and> r \<le> 5"
  proof (cases "castNumber rating")
    case CastError
    with v show ?thesis by simp
  next
    case CastNull
    with t show ?thesis by (cases rating) (auto split: if_splits jsNumber.splits)
  next
    case (CastNumber n)
    with v show ?thesis by (cases n) (auto split: if_splits)
  qed
  with e show ?thesis by simp
qed

text \<open>
  A rating that is no number and no numeric text gets past the check of the rating, since
  every comparison with \<^verbatim>\<open>NaN\<close> is false; for the owner of the course and an existing
  entry, the cast then fails and the request is answered with 500. The one-element array
  is read as its element by the check and is refused by the cast. A boolean \<^verbatim>\<open>true\<close> is
  stored as the rating 1, and a numeric text as its number.
\<close>

lemma rateTask_other_ratings:
  "rateTask carol 1 5 1 (String ''abc'') (Some ''good'') 9 working_db = Inl ServerError"
  "rateTask carol 1 5 1 Object (Some ''good'') 9 working_db = Inl ServerError"
  "rateTask carol 1 5 1 (Array [Number (Finite 4)]) (Some ''good'') 9 working_db = Inl ServerError"
  "rateTask carol 1 5 1 (Array [Number (Finite 7)]) (Some ''good'') 9 working_db = Inl BadRequest"
  "rateTask carol 1 5 1 (String ''7'') (Some ''good'') 9 working_db = Inl BadRequest"
  "rateTask carol 1 5 1 (String []) (Some ''good'') 9 working_db = Inl BadRequest"
  "rateTask carol 1 5 1 (String ''4'') (Some ''good'') 9 working_db = Inr (rated_db, rated_entry)"
  "rateTask dave 1 5 1 (String ''abc'') (Some ''good'') 9 working_db = Inl NotAuthorized"
  "coachRating (snd (projr
      (rateTask carol 1 5 1 (Boolean True) (Some ''good'') 9 working_db))) = Some 1"
  by code_simp+

text \<open>
  Claim C3, as stated, fails where its conditions overlap, because the handler checks the
  rating first, then the course, then its owner, then the record and the entry. The coach
  dave does not own course 1: with the rating 7 he is answered with a validation error
  (400), not with an authorization error; and with the rating 4, for the student bob who
  has no Progress record, he is answered with an authorization error (401), not with a
  not-found error.
\<close>

theorem rateTask_check_order_counterexample:
  "user_role dave = Coach \<and> course_coach course_1 \<noteq> user_id dave \<and>
   db_courses working_db = [course_1] \<and> course_id course_1 = 1 \<and>
   rateTask dave 1 5 1 (Number (Finite 7)) (Some ''good'') 9 working_db = Inl BadRequest \<and>
   \<not> is_authorization_error BadRequest \<and>
   findProgress 6 1 working_db = None \<and>
   rateTask dave 1 6 1 (Number (Finite 4)) (Some ''good'') 9 working_db = Inl NotAuthorized \<and>
   \<not> is_not_found_error NotAuthorized"
  by code_simp

text \<open>
  Claim C3, as the code has it. The handler runs for the callers that the \<^verbatim>\<open>coach\<close>
  middleware has admitted, and checks in this order: the rating, the course, its owner,
  the student's Progress record, the task-progress entry. A rating that is
  missing (or is another value that \<^verbatim>\<open>!rating\<close> holds for) or whose numeric value lies
  outside [1, 5] is refused as a validation error (400), whoever the caller is. With a
  rating whose numeric value \<open>r\<close> lies in [1, 5]: a course that does not exist is not found
  (404); for an existing course a caller who is not the course's coach is refused as not
  authorized (401); the owner gets not found (404) when the student has no Progress record
  for the course or the record has no entry for the task; otherwise, the rating being a
  number or a numeric text, the first entry for the task gets the rating \<open>r\<close>, the feedback
  and the rating time, its \<open>submittedForReview\<close> is cleared, the other entries are
  untouched, and the stored record's \<open>averageRating\<close> is \<open>getAverageRating\<close> of the updated
  record.
\<close>

theorem rateTask_outcomes:
  "(\<not> ToBoolean rating \<or> ToNumber rating = NegInfinity \<or> ToNumber rating = PosInfinity \<or>
    (\<exists>r. ToNumber rating = Finite r \<and> (r < 1 \<or> 5 < r)) \<longrightarrow>
      (\<exists>e. rateTask caller courseId studentId taskId rating feedback now db = Inl e \<and>
           is_validation_error e))
   \<and>
   (ToBoolean rating \<and> ToNumber rating = Finite r \<and> 1 \<le> r \<and> r \<le> 5 \<longrightarrow>
      (find (\<lambda>c. course_id c = courseId) (db_courses db) = None \<longrightarrow>
         (\<exists>e. rateTask caller courseId studentId taskId rating feedback now db = Inl e \<and>
              is_not_found_error e)) \<and>
      (find (\<lambda>c. course_id c = courseId) (db_courses db) = Some course \<and>
       course_coach course \<noteq> user_id caller \<longrightarrow>
         (\<exists>e. rateTask caller courseId studentId taskId rating feedback now db = Inl e \<and>
              is_authorization_error e)) \<and>
      (find (\<lambda>c. course_id c = courseId) (db_courses db) = Some course \<and>
       course_coach course = user_id caller \<and>
       (findProgress studentId courseId db = None \<or>
        (\<exists>p. findProgress studentId courseId db = Some p \<and>
             (\<forall>tp \<in> set (taskProgress p). tp_task tp \<noteq> taskId))) \<longrightarrow>
         (\<exists>e. rateTask caller courseId studentId taskId rating feedback now db = Inl e \<and>
              is_not_found_error e)) \<and>
      (find (\<lambda>c. course_id c = courseId) (db_courses db) = Some course \<and>
       course_coach course = user_id caller \<and>
       findProgress studentId courseId db = Some p \<and>
       findIndex (\<lambda>tp. tp_task tp = taskId) (taskProgress p) = Some i \<and>
       (rating = Number n \<or> rating = String s) \<longrightarrow>
         i < length (taskProgress p) \<and> tp_task (taskProgress p ! i) = taskId \<and>
         (\<exists>db' p'. rateTask caller courseId studentId taskId rating feedback now db
                     = Inr (db', (taskProgress p ! i)\<lparr>coachRating := Some r,
                              coachFeedback := (case feedback of None \<Rightarrow> [] | Some f \<Rightarrow> f),
                              coachRatedAt := Some now, submittedForReview := False\<rparr>) \<and>
            findProgress studentId courseId db' = Some p' \<and>
            taskProgress p' = (taskProgress p)
              [i := (taskProgress p ! i)\<lparr>coachRating := Some r,
                              coachFeedback := (case feedback of None \<Rightarrow> [] | Some f \<Rightarrow> f),
                              coachRatedAt := Some now, submittedForReview := False\<rparr>] \<and>
            averageRating p' = getAverageRating p')))"
proof (intro conjI impI)
  assume "\<not> ToBoolean rating \<or> ToNumber rating = NegInfinity \<or> ToNumber rating = PosInfinity \<or>
    (\<exists>r. ToNumber rating = Finite r \<and> (r < 1 \<or> 5 < r))"
  from rateTask_invalid[OF rating_outside[OF this]]
  show "\<exists>e. rateTask caller courseId studentId taskId rating feedback now db = Inl e \<and>
           is_validation_error e"
    by (simp add: is_validation_error_def)
next
  assume a: "ToBoolean rating \<and> ToNumber rating = Finite r \<and> 1 \<le> r \<and> r \<le> 5"
  then have a1: "ToBoolean rating" and a2: "ToNumber rating = Finite r"
    and a3: "1 \<le> r" and a4: "r \<le> 5" by simp_all
  {
    assume "find (\<lambda>c. course_id c = courseId) (db_courses db) = None"
    from rateTask_no_course[OF a1 a2 a3 a4 this]
    show "\<exists>e. rateTask caller courseId studentId taskId rating feedback now db = Inl e \<and>
              is_not_found_error e"
      by (simp add: is_not_found_error_def)
  }
  {
    assume b: "find (\<lambda>c. course_id c = courseId) (db_courses db) = Some course \<and>
       course_coach course \<noteq> user_id caller"
    from rateTask_not_owner[OF a1 a2 a3 a4 conjunct1[OF b] conjunct2[OF b]]
    show "\<exists>e. rateTask caller courseId studentId taskId rating feedback now db = Inl e \<and>
              is_authorization_error e"
      by (simp add: is_authorization_error_def)
  }
  {
    assume b: "find (\<lambda>c. course_id c = courseId) (db_courses db) = Some course \<and>
       course_coach course = user_id caller \<and>
       (findProgress studentId courseId db = None \<or>
        (\<exists>p. findProgress studentId courseId db = Some p \<and>
             (\<forall>tp \<in> set (taskProgress p). tp_task tp \<noteq> taskId)))"
    then have b1: "find (\<lambda>c. course_id c = courseId) (db_courses db) = Some course"
      and b2: "course_coach course = user_id caller"
      and b3: "findProgress studentId courseId db = None \<or>
        (\<exists>p. findProgress studentId courseId db = Some p \<and>
             (\<forall>tp \<in> set (taskProgress p). tp_task tp \<noteq> taskId))" by simp_all
    from rateTask_not_found[OF a1 a2 a3 a4 b1 b2 b3]
    show "\<exists>e. rateTask caller courseId studentId taskId rating feedback now db = Inl e \<and>
              is_not_found_error e"
      by (simp add: is_not_found_error_def)
  }
  {
    assume c: "find (\<lambda>c. course_id c = courseId) (db_courses db) = Some course \<and>
       course_coach course = user_id caller \<and>
       findProgress studentId courseId db = Some p \<and>
       findIndex (\<lambda>tp. tp_task tp = taskId) (taskProgress p) = Some i \<and>
       (rating = Number n \<or> rating = String s)"
    then have c0: "find (\<lambda>c. course_id c = courseId) (db_courses db) = Some course"
      and c1: "course_coach course = user_id caller"
      and c2: "findProgress studentId courseId db = Some p"
      and c3: "findIndex (\<lambda>tp. tp_task tp = taskId) (taskProgress p) = Some i"
      and c4: "rating = Number n \<or> rating = String s" by simp_all
    from findIndex_SomeD[OF c3]
    show "i < length (taskProgress p)" "tp_task (taskProgress p ! i) = taskId" by simp_all
    note v = rating_stored[OF a1 a2 a3 a4 c4]
    from rateTask_success[OF a1 a2 a3 a4 v c0 c1 c2 c3, where feedback = feedback and now = now]
    show "\<exists>db' p'. rateTask caller courseId studentId taskId rating feedback now db
                     = Inr (db', (taskProgress p ! i)\<lparr>coachRating := Some r,
                              coachFeedback := (case feedback of None \<Rightarrow> [] | Some f \<Rightarrow> f),
                              coachRatedAt := Some now, submittedForReview := False\<rparr>) \<and>
            findProgress studentId courseId db' = Some p' \<and>
            taskProgress p' = (taskProgress p)
              [i := (taskProgress p ! i)\<lparr>coachRating := Some r,
                              coachFeedback := (case feedback of None \<Rightarrow> [] | Some f \<Rightarrow> f),
                              coachRatedAt := Some now, submittedForReview := False\<rparr>] \<and>
            averageRating p' = getAverageRating p'"
      by blast
  }
qed

theorem rateTask_outcomes_witness:
  "ToNumber (Number (Finite 7)) = Finite 7 \<and>
   rateTask dave 1 5 1 (Number (Finite 7)) (Some ''good'') 9 working_db = Inl BadRequest \<and>
   \<not> ToBoolean Undefined \<and>
   rateTask carol 1 5 1 Undefined (Some ''good'') 9 working_db = Inl BadRequest \<and>
   is_validation_error BadRequest \<and>
   ToBoolean (Number (Finite 4)) \<and> ToNumber (Number (Finite 4)) = Finite 4 \<and>
   find (\<lambda>c. course_id c = 2) (db_courses working_db) = None \<and>
   rateTask carol 2 5 1 (Number (Finite 4)) (Some ''good'') 9 working_db = Inl NotFound \<and>
   find (\<lambda>c. course_id c = 1) (db_courses working_db) = Some course_1 \<and>
   user_role dave = Coach \<and> course_coach course_1 \<noteq> user_id dave \<and>
   rateTask dave 1 5 1 (Number (Finite 4)) (Some ''good'') 9 working_db = Inl NotAuthorized \<and>
   is_authorization_error NotAuthorized \<and>
   course_coach course_1 = user_id carol \<and>
   findProgress 6 1 working_db = None \<and>
   rateTask carol 1 6 1 (Number (Finite 4)) (Some ''good'') 9 working_db = Inl NotFound \<and>
   is_not_found_error NotFound \<and>
   findProgress 5 1 working_db = Some working_progress \<and>
   findIndex (\<lambda>tp. tp_task tp = 1) (taskProgress working_progress) = Some 0 \<and>
   rateTask carol 1 5 1 (Number (Finite 4)) (Some ''good'') 9 working_db = Inr (rated_db, rated_entry) \<and>
   findProgress 5 1 rated_db = Some rated_progress \<and>
   coachRating rated_entry = Some 4 \<and>
   averageRating rated_progress = getAverageRating rated_progress"
proof -
  have n7: "ToNumber (Number (Finite 7)) = Finite 7"
    and u: "\<not> ToBoolean Undefined"
    and n4: "ToBoolean (Number (Finite 4))" "ToNumber (Number (Finite 4)) = Finite 4"
    by simp_all
  have c2: "find (\<lambda>c. course_id c = 2) (db_courses working_db) = None"
    and c: "find (\<lambda>c. course_id c = 1) (db_courses working_db) = Some course_1"
    and o: "user_role dave = Coach" "course_coach course_1 \<noteq> user_id dave"
       "course_coach course_1 = user_id carol"
    and n: "findProgress 6 1 working_db = None"
    and p: "findProgress 5 1 working_db = Some working_progress"
    and i: "findIndex (\<lambda>tp. tp_task tp = 1) (taskProgress working_progress) = Some 0"
    and s: "rateTask carol 1 5 1 (Number (Finite 4)) (Some ''good'') 9 working_db = Inr (rated_db, rated_entry)"
    and q: "findProgress 5 1 rated_db = Some rated_progress"
    and e: "coachRating rated_entry = Some 4"
    by code_simp+
  have k: "\<And>e. is_validation_error e \<Longrightarrow> e = BadRequest"
    "\<And>e. is_authorization_error e \<Longrightarrow> e = NotAuthorized \<or> e = Forbidden"
    "\<And>e. is_not_found_error e \<Longrightarrow> e = NotFound"
    subgoal for e by (cases e) (simp_all add: is_validation_error_def)
    subgoal for e by (cases e) (simp_all add: is_authorization_error_def)
    subgoal for e by (cases e) (simp_all add: is_not_found_error_def)
    done
  have kk: "is_validation_error BadRequest" "is_authorization_error NotAuthorized"
    "is_not_found_error NotFound"
    by (simp_all add: is_validation_error_def is_authorization_error_def is_not_found_error_def)
  have 1: "rateTask dave 1 5 1 (Number (Finite 7)) (Some ''good'') 9 working_db = Inl BadRequest"
    using rateTask_outcomes[where rating = "Number (Finite 7)" and caller = dave and courseId = 1
        and studentId = 5 and taskId = 1 and feedback = "Some ''good''" and now = 9
        and db = working_db and r = 4 and course = course_1 and p = working_progress and i = 0
        and n = "Finite 7" and s = "[]"] n7 k(1)
    by fastforce
  have 2: "rateTask carol 1 5 1 Undefined (Some ''good'') 9 working_db = Inl BadRequest"
    using rateTask_outcomes[where rating = Undefined and caller = carol and courseId = 1
        and studentId = 5 and taskId = 1 and feedback = "Some ''good''" and now = 9
        and db = working_db and r = 4 and course = course_1 and p = working_progress and i = 0
        and n = "Finite 7" and s = "[]"] u k(1)
    by fastforce
  have 3: "rateTask carol 2 5 1 (Number (Finite 4)) (Some ''good'') 9 working_db = Inl NotFound"
    using rateTask_outcomes[where rating = "Number (Finite 4)" and caller = carol and courseId = 2
        and studentId = 5 and taskId = 1 and feedback = "Some ''good''" and now = 9
        and db = working_db and r = 4 and course = course_1 and p = working_progress and i = 0
        and n = "Finite 4" and s = "[]"] n4 c2 k(3)
    by fastforce
  have "\<exists>e. rateTask dave 1 5 1 (Number (Finite 4)) (Some ''good'') 9 working_db = Inl e \<and>
          is_authorization_error e"
    using rateTask_outcomes[where rating = "Number (Finite 4)" and caller = dave and courseId = 1
        and studentId = 5 and taskId = 1 and feedback = "Some ''good''" and now = 9
        and db = working_db and r = 4 and course = course_1 and p = working_progress and i = 0
        and n = "Finite 4" and s = "[]"] n4 c o(2)
    by simp
  moreover have "rateTask dave 1 5 1 (Number (Finite 4)) (Some ''good'') 9 working_db \<noteq> Inl Forbidden"
    by code_simp
  ultimately have 4: "rateTask dave 1 5 1 (Number (Finite 4)) (Some ''good'') 9 working_db = Inl NotAuthorized"
    using k(2) by fastforce
  have 5: "rateTask carol 1 6 1 (Number (Finite 4)) (Some ''good'') 9 working_db = Inl NotFound"
    using rateTask_outcomes[where rating = "Number (Finite 4)" and caller = carol and courseId = 1
        and studentId = 6 and taskId = 1 and feedback = "Some ''good''" and now = 9
        and db = working_db and r = 4 and course = course_1 and p = working_progress and i = 0
        and n = "Finite 4" and s = "[]"] n4 c o(3) n k(3)
    by fastforce
  have "\<exists>db' p'. rateTask carol 1 5 1 (Number (Finite 4)) (Some ''good'') 9 working_db
                     = Inr (db', (taskProgress working_progress ! 0)\<lparr>coachRating := Some 4,
                              coachFeedback := (case Some ''good'' of None \<Rightarrow> [] | Some f \<Rightarrow> f),
                              coachRatedAt := Some 9, submittedForReview := False\<rparr>) \<and>
            findProgress 5 1 db' = Some p' \<and>
            taskProgress p' = (taskProgress working_progress)
              [0 := (taskProgress working_progress ! 0)\<lparr>coachRating := Some 4,
                              coachFeedback := (case Some ''good'' of None \<Rightarrow> [] | Some f \<Rightarrow> f),
                              coachRatedAt := Some 9, submittedForReview := False\<rparr>] \<and>
            averageRating p' = getAverageRating p'"
    using rateTask_outcomes[where rating = "Number (Finite 4)" and caller = carol and courseId = 1
        and studentId = 5 and taskId = 1 and feedback = "Some ''good''" and now = 9
        and db = working_db and r = 4 and course = course_1 and p = working_progress and i = 0
        and n = "Finite 4" and s = "[]"] n4 c o(3) p i
    by simp
  then have 6: "averageRating rated_progress = getAverageRating rated_progress"
    using s q by auto
  show ?thesis using n7 u n4 c2 c o n p i s q e kk 1 2 3 4 5 6 by blast
qed

section \<open>Badge awarding\<close>

lemma set_updateFirst_const: "set (updateFirst P (\<lambda>_. y) xs) \<subseteq> insert y (set xs)"
  by (induction xs) auto

lemma awardBadges_cases:
  obtains (none) "awardBadges caller db = (db, [])"
  | (grant) student badge where
      "find (\<lambda>s. student_name s = trim (user_name caller)) (db_students db) = Some student"
      "find (\<lambda>b. criteria b = ''Complete 5 tasks'') (db_badges db) = Some badge"
      "5 \<le> totalCompleted (user_id caller) db"
      "badge_id badge \<notin> set (badges student)"
      "awardBadges caller db =
         (db\<lparr>db_students := updateFirst (\<lambda>s. student_name s = trim (user_name caller))
               (\<lambda>_. student\<lparr>badges := badges student @ [badge_id badge]\<rparr>) (db_students db)\<rparr>,
          [badge])"
proof (cases "find (\<lambda>s. student_name s = trim (user_name caller)) (db_students db)")
  case None
  then have "awardBadges caller db = (db, [])" by (simp add: awardBadges_def)
  then show ?thesis by (rule none)
next
  case student: (Some student)
  show ?thesis
  proof (cases "find (\<lambda>b. criteria b = ''Complete 5 tasks'') (db_badges db)")
    case None
    then have "awardBadges caller db = (db, [])" using student by (simp add: awardBadges_def)
    then show ?thesis by (rule none)
  next
    case badge: (Some badge)
    show ?thesis
    proof (cases "5 \<le> totalCompleted (user_id caller) db \<and> badge_id badge \<notin> set (badges student)")
      case True
      then show ?thesis
        using student badge by (intro grant[of student badge]) (simp_all add: awardBadges_def)
    next
      case False
      then have "awardBadges caller db = (db, [])"
        using student badge by (auto simp: awardBadges_def)
      then show ?thesis by (rule none)
    qed
  qed
qed

lemma totalCompleted_cong:
  "db_progress db' = db_progress db \<Longrightarrow> totalCompleted u db' = totalCompleted u db"
  by (simp add: totalCompleted_def)

lemma awardBadges_twice:
  "awardBadges caller (fst (awardBadges caller db)) = (fst (awardBadges caller db), [])"
proof (cases rule: awardBadges_cases[of caller db])
  case none
  then show ?thesis by simp
next
  case (grant student badge)
  define st' where "st' = student\<lparr>badges := badges student @ [badge_id badge]\<rparr>"
  define db1 where "db1 = db\<lparr>db_students := updateFirst (\<lambda>s. student_name s = trim (user_name caller))
               (\<lambda>_. st') (db_students db)\<rparr>"
  have fst: "fst (awardBadges caller db) = db1" using grant(5) by (simp add: db1_def st'_def)
  have name: "student_name st' = trim (user_name caller)"
    using find_SomeD[OF grant(1)] by (simp add: st'_def)
  have f1: "find (\<lambda>s. student_name s = trim (user_name caller)) (db_students db1) = Some st'"
    unfolding db1_def using name grant(1) by (simp add: find_updateFirst_same)
  have f2: "find (\<lambda>b. criteria b = ''Complete 5 tasks'') (db_badges db1) = Some badge"
    using grant(2) by (simp add: db1_def)
  have "badge_id badge \<in> set (badges st')" by (simp add: st'_def)
  then have "awardBadges caller db1 = (db1, [])"
    unfolding awardBadges_def using f1 f2 by simp
  then show ?thesis unfolding fst .
qed

lemma awardBadges_iterate:
  "((\<lambda>d. fst (awardBadges caller d)) ^^ Suc n) db = fst (awardBadges caller db)"
proof (induction n)
  case 0
  then show ?case by simp
next
  case (Suc n)
  have "((\<lambda>d. fst (awardBadges caller d)) ^^ Suc (Suc n)) db
          = fst (awardBadges caller (((\<lambda>d. fst (awardBadges caller d)) ^^ Suc n) db))"
    by simp
  also have "\<dots> = fst (awardBadges caller (fst (awardBadges caller db)))"
    unfolding Suc.IH ..
  also have "\<dots> = fst (awardBadges caller db)"
    by (simp add: awardBadges_twice)
  finally show ?case .
qed

lemma awardBadges_distinct:
  assumes "\<forall>s \<in> set (db_students db). distinct (badges s)"
  shows "\<forall>s \<in> set (db_students (fst (awardBadges caller db))). distinct (badges s)"
proof (cases rule: awardBadges_cases[of caller db])
  case none
  then show ?thesis using assms by simp
next
  case (grant student badge)
  have "student \<in> set (db_students db)" using find_SomeD[OF grant(1)] by simp
  then have "distinct (badges student @ [badge_id badge])" using assms grant(4) by simp
  then show ?thesis
    using assms set_updateFirst_const[of "\<lambda>s. student_name s = trim (user_name caller)"
        "student\<lparr>badges := badges student @ [badge_id badge]\<rparr>" "db_students db"]
    unfolding grant(5) by auto
qed

lemma awardBadges_count:
  "\<forall>s \<in> set (db_students (fst (awardBadges caller db))).
     s \<in> set (db_students db) \<or>
     (\<exists>student badge. student \<in> set (db_students db) \<and> snd (awardBadges caller db) = [badge] \<and>
        badge_id badge \<notin> set (badges student) \<and>
        s = student\<lparr>badges := badges student @ [badge_id badge]\<rparr>)"
proof (cases rule: awardBadges_cases[of caller db])
  case none
  then show ?thesis by simp
next
  case (grant student badge)
  have "student \<in> set (db_students db)" using find_SomeD[OF grant(1)] by simp
  then show ?thesis
    using grant(4) set_updateFirst_const[of "\<lambda>s. student_name s = trim (user_name caller)"
        "student\<lparr>badges := badges student @ [badge_id badge]\<rparr>" "db_students db"]
    unfolding grant(5) by auto
qed

lemma awardBadges_granted:
  assumes "snd (awardBadges caller db) \<noteq> []"
  shows "\<exists>student badge.
      find (\<lambda>s. student_name s = trim (user_name caller)) (db_students db) = Some student \<and>
      find (\<lambda>b. criteria b = ''Complete 5 tasks'') (db_badges db) = Some badge \<and>
      snd (awardBadges caller db) = [badge] \<and>
      5 \<le> totalCompleted (user_id caller) db \<and>
      badge_id badge \<notin> set (badges student) \<and>
      find (\<lambda>s. student_name s = trim (user_name caller)) (db_students (fst (awardBadges caller db)))
        = Some (student\<lparr>badges := badges student @ [badge_id badge]\<rparr>)"
proof (cases rule: awardBadges_cases[of caller db])
  case none
  then show ?thesis using assms by simp
next
  case (grant student badge)
  have name: "student_name (student\<lparr>badges := badges student @ [badge_id badge]\<rparr>) = trim (user_name caller)"
    using find_SomeD[OF grant(1)] by simp
  have "find (\<lambda>s. student_name s = trim (user_name caller)) (db_students (fst (awardBadges caller db)))
        = Some (student\<lparr>badges := badges student @ [badge_id badge]\<rparr>)"
    unfolding grant(5) using name grant(1) by (simp add: find_updateFirst_same)
  then show ?thesis using grant by simp
qed

lemma awardBadges_not_granted:
  "snd (awardBadges caller db) = [] \<Longrightarrow> fst (awardBadges caller db) = db"
  by (cases rule: awardBadges_cases[of caller db]) simp_all

lemma completeTask_badges:
  "\<exists>db1. db_students db1 = db_students db \<and> db_badges db1 = db_badges db \<and>
         findProgress (user_id caller) courseId db1
           = Some (response_progress (snd (completeTask caller taskId courseId now db))) \<and>
         completeTask caller taskId courseId now db
           = (fst (awardBadges caller db1),
              \<lparr>response_progress = response_progress (snd (completeTask caller taskId courseId now db)),
               newBadges = snd (awardBadges caller db1)\<rparr>)"
proof -
  define found where "found = findProgress (user_id caller) courseId db"
  define start where "start = (case found of None \<Rightarrow> newProgress (user_id caller) courseId now | Some p \<Rightarrow> p)"
  define saved where "saved = markCompleted taskId courseId db start"
  define db1 where "db1 = saveProgress found saved db"
  have c: "completeTask caller taskId courseId now db
        = (fst (awardBadges caller db1), \<lparr>response_progress = saved, newBadges = snd (awardBadges caller db1)\<rparr>)"
    unfolding completeTask_unfold Let_def found_def start_def saved_def db1_def ..
  have key: "progress_user start = user_id caller \<and> progress_course start = courseId"
    unfolding start_def using findProgress_key[of "user_id caller" courseId db]
    by (auto simp: found_def newProgress_def split: option.splits)
  have f: "findProgress (user_id caller) courseId db1 = Some saved"
    unfolding db1_def found_def
    by (rule findProgress_saveProgress) (simp_all add: saved_def key)
  show ?thesis
    using c f by (intro exI[of _ db1]) (simp add: db1_def)
qed

lemma completeTask_distinct:
  assumes "\<forall>s \<in> set (db_students db). distinct (badges s)"
  shows "\<forall>s \<in> set (db_students (fst (completeTask caller taskId courseId now db))). distinct (badges s)"
proof -
  obtain db1 where s: "db_students db1 = db_students db"
    and c: "completeTask caller taskId courseId now db
           = (fst (awardBadges caller db1),
              \<lparr>response_progress = response_progress (snd (completeTask caller taskId courseId now db)),
               newBadges = snd (awardBadges caller db1)\<rparr>)"
    using completeTask_badges[of db caller courseId taskId now] by blast
  have "\<forall>s \<in> set (db_students db1). distinct (badges s)" using assms s by simp
  from awardBadges_distinct[OF this, of caller] show ?thesis
    by (subst c) simp
qed

lemma completeTask_calls_distinct:
  "\<forall>s \<in> set (db_students db). distinct (badges s) \<Longrightarrow>
   \<forall>s \<in> set (db_students (foldl completeTaskCall db calls)). distinct (badges s)"
proof (induction calls arbitrary: db)
  case Nil
  then show ?case by simp
next
  case (Cons call calls)
  obtain caller taskId courseId now where call: "call = (caller, taskId, courseId, now)"
    by (cases call) auto
  have "\<forall>s \<in> set (db_students (completeTaskCall db call)). distinct (badges s)"
    unfolding call using completeTask_distinct[OF Cons.prems] by simp
  from Cons.IH[OF this] show ?case by simp
qed

lemma completeTask_granted_threshold:
  assumes "newBadges (snd (completeTask caller taskId courseId now db)) \<noteq> []"
  shows "5 \<le> totalCompleted (user_id caller) (fst (completeTask caller taskId courseId now db))"
proof -
  obtain db1 where c: "completeTask caller taskId courseId now db
           = (fst (awardBadges caller db1),
              \<lparr>response_progress = response_progress (snd (completeTask caller taskId courseId now db)),
               newBadges = snd (awardBadges caller db1)\<rparr>)"
    using completeTask_badges[of db caller courseId taskId now] by blast
  have n: "newBadges (snd (completeTask caller taskId courseId now db)) = snd (awardBadges caller db1)"
    by (subst c) simp
  have f: "fst (completeTask caller taskId courseId now db) = fst (awardBadges caller db1)"
    by (subst c) simp
  from assms n have "snd (awardBadges caller db1) \<noteq> []" by simp
  from awardBadges_granted[OF this] have "5 \<le> totalCompleted (user_id caller) db1" by blast
  moreover have "totalCompleted (user_id caller) (fst (awardBadges caller db1)) = totalCompleted (user_id caller) db1"
    by (rule totalCompleted_cong) simp
  ultimately show ?thesis unfolding f by simp
qed

text \<open>
  Claim C7. The evaluator grants the badge with criteria ``Complete 5 tasks'' only when the
  caller's completed tasks over all their Progress records number at least 5 and the
  badge list of the caller's student profile (the first profile whose name is the trimmed
  name of the caller) does not hold the badge yet; the granted badge is appended once and
  is the evaluator's result, and without a grant the database is unchanged. Evaluating
  again grants nothing and changes nothing, so any number of evaluations leaves the
  database of the first. Badge lists without duplicates stay without duplicates through
  the evaluator and through any run of \<open>completeTask\<close> requests. \<open>completeTask\<close> runs the
  evaluator on the database with the saved record and reports its result as \<open>newBadges\<close>.
\<close>

theorem badge_award_idempotent:
  "(snd (awardBadges caller db) \<noteq> [] \<longrightarrow>
      (\<exists>student badge.
         find (\<lambda>s. student_name s = trim (user_name caller)) (db_students db) = Some student \<and>
         find (\<lambda>b. criteria b = ''Complete 5 tasks'') (db_badges db) = Some badge \<and>
         snd (awardBadges caller db) = [badge] \<and>
         5 \<le> totalCompleted (user_id caller) db \<and>
         badge_id badge \<notin> set (badges student) \<and>
         find (\<lambda>s. student_name s = trim (user_name caller)) (db_students (fst (awardBadges caller db)))
           = Some (student\<lparr>badges := badges student @ [badge_id badge]\<rparr>)))
   \<and> (snd (awardBadges caller db) = [] \<longrightarrow> fst (awardBadges caller db) = db)
   \<and> awardBadges caller (fst (awardBadges caller db)) = (fst (awardBadges caller db), [])
   \<and> ((\<lambda>d. fst (awardBadges caller d)) ^^ Suc n) db = fst (awardBadges caller db)
   \<and> ((\<forall>s \<in> set (db_students db). distinct (badges s)) \<longrightarrow>
        (\<forall>s \<in> set (db_students (fst (awardBadges caller db))). distinct (badges s)) \<and>
        (\<forall>s \<in> set (db_students (foldl completeTaskCall db calls)). distinct (badges s)))
   \<and> (\<exists>db1. db_students db1 = db_students db \<and> db_badges db1 = db_badges db \<and>
         findProgress (user_id caller) courseId db1
           = Some (response_progress (snd (completeTask caller taskId courseId now db))) \<and>
         completeTask caller taskId courseId now db
           = (fst (awardBadges caller db1),
              \<lparr>response_progress = response_progress (snd (completeTask caller taskId courseId now db)),
               newBadges = snd (awardBadges caller db1)\<rparr>))
   \<and> (newBadges (snd (completeTask caller taskId courseId now db)) \<noteq> [] \<longrightarrow>
        5 \<le> totalCompleted (user_id caller) (fst (completeTask caller taskId courseId now db)))"
proof (intro conjI impI)
  show "\<exists>student badge.
         find (\<lambda>s. student_name s = trim (user_name caller)) (db_students db) = Some student \<and>
         find (\<lambda>b. criteria b = ''Complete 5 tasks'') (db_badges db) = Some badge \<and>
         snd (awardBadges caller db) = [badge] \<and>
         5 \<le> totalCompleted (user_id caller) db \<and>
         badge_id badge \<notin> set (badges student) \<and>
         find (\<lambda>s. student_name s = trim (user_name caller)) (db_students (fst (awardBadges caller db)))
           = Some (student\<lparr>badges := badges student @ [badge_id badge]\<rparr>)"
    if "snd (awardBadges caller db) \<noteq> []"
    using that by (rule awardBadges_granted)
  show "fst (awardBadges caller db) = db" if "snd (awardBadges caller db) = []"
    using that by (rule awardBadges_not_granted)
  show "awardBadges caller (fst (awardBadges caller db)) = (fst (awardBadges caller db), [])"
    by (rule awardBadges_twice)
  show "((\<lambda>d. fst (awardBadges caller d)) ^^ Suc n) db = fst (awardBadges caller db)"
    by (rule awardBadges_iterate)
  show "\<forall>s \<in> set (db_students (fst (awardBadges caller db))). distinct (badges s)"
    if "\<forall>s \<in> set (db_students db). distinct (badges s)"
    using that by (rule awardBadges_distinct)
  show "\<forall>s \<in> set (db_students (foldl completeTaskCall db calls)). distinct (badges s)"
    if "\<forall>s \<in> set (db_students db). distinct (badges s)"
    using that by (rule completeTask_calls_distinct)
  show "\<exists>db1. db_students db1 = db_students db \<and> db_badges db1 = db_badges db \<and>
         findProgress (user_id caller) courseId db1
           = Some (response_progress (snd (completeTask caller taskId courseId now db))) \<and>
         completeTask caller taskId courseId now db
           = (fst (awardBadges caller db1),
              \<lparr>response_progress = response_progress (snd (completeTask caller taskId courseId now db)),
               newBadges = snd (awardBadges caller db1)\<rparr>)"
    by (rule completeTask_badges)
  show "5 \<le> totalCompleted (user_id caller) (fst (completeTask caller taskId courseId now db))"
    if "newBadges (snd (completeTask caller taskId courseId now db)) \<noteq> []"
    using that by (rule completeTask_granted_threshold)
qed

theorem badge_award_idempotent_witness:
  "snd (awardBadges alice five_done_db) = [five_badge] \<and>
   snd (awardBadges alice four_done_db) = [] \<and>
   fst (awardBadges alice four_done_db) = four_done_db \<and>
   map badges (db_students five_done_db) = [[]] \<and>
   map badges (db_students (fst (awardBadges alice five_done_db))) = [[3]] \<and>
   awardBadges alice (fst (awardBadges alice five_done_db))
     = (fst (awardBadges alice five_done_db), []) \<and>
   newBadges (snd (completeTask alice 15 1 8 four_done_db)) = [five_badge] \<and>
   5 \<le> totalCompleted (user_id alice) (fst (completeTask alice 15 1 8 four_done_db)) \<and>
   map badges (db_students (foldl completeTaskCall four_done_db
      [(alice, 15, 1, 8), (alice, 15, 1, 9), (alice, 16, 1, 10)])) = [[3]] \<and>
   trim (user_name erin) = ''erin'' \<and>
   awardBadges erin erin_done_db = (erin_badge_db, [five_badge]) \<and>
   5 \<le> totalCompleted (user_id erin) erin_done_db \<and>
   awardBadges erin erin_badge_db = (erin_badge_db, [])"
proof -
  have g: "snd (awardBadges alice five_done_db) = [five_badge]"
    and n: "snd (awardBadges alice four_done_db) = []"
    and b: "map badges (db_students five_done_db) = [[]]"
       "map badges (db_students (fst (awardBadges alice five_done_db))) = [[3]]"
    and c: "newBadges (snd (completeTask alice 15 1 8 four_done_db)) = [five_badge]"
    and r: "map badges (db_students (foldl completeTaskCall four_done_db
      [(alice, 15, 1, 8), (alice, 15, 1, 9), (alice, 16, 1, 10)])) = [[3]]"
    and e: "trim (user_name erin) = ''erin''"
       "awardBadges erin erin_done_db = (erin_badge_db, [five_badge])"
    by code_simp+
  note t4 = badge_award_idempotent[of alice four_done_db 0 "[]" 1 15 8]
  note te = badge_award_idempotent[of erin erin_done_db 0 "[]" 1 15 8]
  note t5 = badge_award_idempotent[of alice five_done_db 0 "[]" 1 15 8]
  from t4 n have 1: "fst (awardBadges alice four_done_db) = four_done_db" by blast
  from t5 have 2: "awardBadges alice (fst (awardBadges alice five_done_db))
     = (fst (awardBadges alice five_done_db), [])" by blast
  from t4 c have 3: "5 \<le> totalCompleted (user_id alice) (fst (completeTask alice 15 1 8 four_done_db))"
    by simp
  from te e(2) have 4: "5 \<le> totalCompleted (user_id erin) erin_done_db" by auto
  from te e(2) have 5: "awardBadges erin erin_badge_db = (erin_badge_db, [])" by auto
  show ?thesis using g n b c r e 1 2 3 4 5 by blast
qed


section \<open>Average rating\<close>


















end
